theory Spec2Isabelle
  imports Complex_Main
begin

section \<open>The VQE benchmark driver (vqe-estimator/qiskit/vqe\_benchmark.py)\<close>

text \<open>
  A shallow embedding of the functions of \<^verbatim>\<open>vqe_benchmark.py\<close>. Python integers are
  \<^typ>\<open>int\<close>. Coefficients, expectation values and fidelities are Python floats in the
  program; a float is modelled by the \<^typ>\<open>real\<close> number it is, so the infinities and NaN
  are outside the model. The comparison of coefficients in \<^verbatim>\<open>readPauliExcitation\<close> is
  modelled with the rounding of the subtraction and with the float that the literal
  \<^verbatim>\<open>1e-4\<close> denotes; the sums and quotients of the scoring are exact. Every exception the
  program can raise is a value of \<open>error\<close>.
\<close>

subsection \<open>Exceptions\<close>

datatype error =
    RuntimeError string
  | IndexError
  | KeyError string
  | ValueError
  | TypeError
  | AttributeError
  | ZeroDivisionError
  | FileNotFoundError
  | CircuitError
  | QiskitError

subsection \<open>Parameter validation and the benchmark loop of \<^verbatim>\<open>run\<close>\<close>

text \<open>\<^verbatim>\<open>MAX_QUBITS = 12\<close> (line 298).\<close>

definition MAX_QUBITS :: int where
  "MAX_QUBITS = 12"

text \<open>
  Lines 319 to 335 of \<^verbatim>\<open>run\<close>: the assignments to \<^verbatim>\<open>max_qubits\<close>, \<^verbatim>\<open>min_qubits\<close>,
  \<^verbatim>\<open>skip_qubits\<close> and \<^verbatim>\<open>max_circuits\<close>, in the order of the source, and the early
  \<^verbatim>\<open>return\<close> when \<^verbatim>\<open>max_qubits < 4\<close>, which is \<open>None\<close>.
\<close>

record run_params =
  min_qubits :: int
  max_qubits :: int
  skip_qubits :: int
  max_circuits :: int

definition validate_params :: "int \<Rightarrow> int \<Rightarrow> int \<Rightarrow> int \<Rightarrow> int \<Rightarrow> run_params option" where
  "validate_params min_q max_q skip_q max_c method =
     (let max_q1 = max max_q min_q;
          max_q2 = min max_q1 MAX_QUBITS;
          min_q1 = min (max 4 min_q) max_q2;
          min_q2 = (if min_q1 mod 2 = 1 then min_q1 + 1 else min_q1);
          skip_q1 = max 1 skip_q;
          max_c1 = (if method = 2 then 1 else max_c)
      in if max_q2 < 4 then None
         else Some \<lparr>min_qubits = min_q2, max_qubits = max_q2,
                     skip_qubits = skip_q1, max_circuits = max_c1\<rparr>)"

text \<open>
  Python's \<^verbatim>\<open>range(start, stop, 2)\<close>, the sequence of \<^verbatim>\<open>input_size\<close> of the loop at
  line 397.
\<close>

function range_step2 :: "int \<Rightarrow> int \<Rightarrow> int list" where
  "range_step2 start stop =
     (if start < stop then start # range_step2 (start + 2) stop else [])"
  by pat_completeness auto
termination
  by (relation "measure (\<lambda>(start, stop). nat (stop - start))") auto

declare range_step2.simps [simp del]

text \<open>The qubit counts the loop of \<^verbatim>\<open>run\<close> visits; \<^verbatim>\<open>skip_qubits\<close> is not read.\<close>

definition input_sizes :: "run_params \<Rightarrow> int list" where
  "input_sizes p = range_step2 (min_qubits p) (max_qubits p + 1)"

definition run_sizes :: "int \<Rightarrow> int \<Rightarrow> int \<Rightarrow> int \<Rightarrow> int \<Rightarrow> int list option" where
  "run_sizes min_q max_q skip_q max_c method =
     map_option input_sizes (validate_params min_q max_q skip_q max_c method)"

subsection \<open>Pauli operators\<close>

text \<open>
  A \<^verbatim>\<open>SparsePauliOp\<close> of the quantum SDK is its list of terms, each a Pauli label and a
  coefficient, which is what \<^verbatim>\<open>to_list\<close> returns and \<^verbatim>\<open>from_list\<close> takes. The labels
  come from the data files and are taken to obey their schema (Pauli strings of one
  length); \<^verbatim>\<open>from_list\<close> refuses the empty list, since no qubit count is given.
\<close>

type_synonym pauli_term = "string \<times> real"

datatype sparse_pauli_op = SparsePauliOp (to_list: "pauli_term list")

definition from_list :: "pauli_term list \<Rightarrow> error + sparse_pauli_op" where
  "from_list obj = (if obj = [] then Inl QiskitError else Inr (SparsePauliOp obj))"

definition op_size :: "sparse_pauli_op \<Rightarrow> nat" where
  "op_size P = length (to_list P)"

definition op_num_qubits :: "sparse_pauli_op \<Rightarrow> nat" where
  "op_num_qubits P = (case to_list P of [] \<Rightarrow> 0 | (label, _) # _ \<Rightarrow> length label)"

text \<open>\<^verbatim>\<open>P[i]\<close> for an integer \<^verbatim>\<open>i\<close>: the operator of the one term at that index.\<close>

definition op_getitem :: "sparse_pauli_op \<Rightarrow> int \<Rightarrow> error + sparse_pauli_op" where
  "op_getitem P i =
     (if 0 \<le> i \<and> i < int (op_size P) then Inr (SparsePauliOp [to_list P ! nat i])
      else if - int (op_size P) \<le> i \<and> i < 0
        then Inr (SparsePauliOp [to_list P ! nat (int (op_size P) + i)])
      else Inl IndexError)"

text \<open>\<^verbatim>\<open>P[k:]\<close> for \<^verbatim>\<open>k \<ge> 0\<close>, and \<^verbatim>\<open>list(P)\<close>, which iterates over the terms.\<close>

definition op_slice_from :: "sparse_pauli_op \<Rightarrow> nat \<Rightarrow> sparse_pauli_op" where
  "op_slice_from P k = SparsePauliOp (drop k (to_list P))"

definition op_list :: "sparse_pauli_op \<Rightarrow> sparse_pauli_op list" where
  "op_list P = map (\<lambda>t. SparsePauliOp [t]) (to_list P)"

subsection \<open>Circuits\<close>

text \<open>
  A circuit is its name, its numbers of qubits and classical bits, its list of
  instructions and its metadata dictionary. An instruction is an operation with the
  indices of the qubits and classical bits it acts on. A circuit appended to another
  becomes one instruction that carries the appended circuit's name, width and
  instructions as they are at that moment.
\<close>

datatype synthesis = LieTrotter (reps: nat)

datatype operation =
    XGate
  | HGate
  | SdgGate
  | Barrier
  | Measure
  | PauliEvolutionGate sparse_pauli_op real synthesis
  | SubCircuit string nat "circuit_instruction list"
and circuit_instruction =
    CircuitInstruction (operation: operation) (qubits: "nat list") (clbits: "nat list")

datatype meta_val = MStr string | MOp sparse_pauli_op

record circuit =
  name :: string
  num_qubits :: nat
  num_clbits :: nat
  data :: "circuit_instruction list"
  metadata :: "string \<rightharpoonup> meta_val"

text \<open>\<^verbatim>\<open>QuantumCircuit(n, name=...)\<close>; a negative size is refused.\<close>

definition QuantumCircuit :: "int \<Rightarrow> string \<Rightarrow> error + circuit" where
  "QuantumCircuit n nm =
     (if n < 0 then Inl CircuitError
      else Inr \<lparr>name = nm, num_qubits = nat n, num_clbits = 0, data = [],
                 metadata = Map.empty\<rparr>)"

text \<open>
  An integer qubit argument indexes the circuit's qubit list as a Python list index
  does: a negative index counts from the end, an index out of range is an error.
\<close>

definition resolve_qubit :: "circuit \<Rightarrow> int \<Rightarrow> error + nat" where
  "resolve_qubit c i =
     (if 0 \<le> i \<and> i < int (num_qubits c) then Inr (nat i)
      else if - int (num_qubits c) \<le> i \<and> i < 0 then Inr (nat (int (num_qubits c) + i))
      else Inl CircuitError)"

definition gate1 :: "operation \<Rightarrow> int \<Rightarrow> circuit \<Rightarrow> error + circuit" where
  "gate1 g i c =
     (case resolve_qubit c i of
        Inl e \<Rightarrow> Inl e
      | Inr q \<Rightarrow> Inr (c\<lparr>data := data c @ [CircuitInstruction g [q] []]\<rparr>))"

text \<open>
  \<^verbatim>\<open>qc.append(op, qargs)\<close>: the operation must be as wide as the argument list, and the
  arguments must be distinct qubits of the circuit.
\<close>

definition op_width :: "operation \<Rightarrow> nat option" where
  "op_width g =
     (case g of
        PauliEvolutionGate P _ _ \<Rightarrow> Some (op_num_qubits P)
      | SubCircuit _ n _ \<Rightarrow> Some n
      | Barrier \<Rightarrow> None
      | _ \<Rightarrow> Some 1)"

definition append_op :: "operation \<Rightarrow> nat list \<Rightarrow> circuit \<Rightarrow> error + circuit" where
  "append_op g qargs c =
     (if (\<forall>q \<in> set qargs. q < num_qubits c) \<and> distinct qargs
         \<and> (case op_width g of None \<Rightarrow> True | Some w \<Rightarrow> w = length qargs)
      then Inr (c\<lparr>data := data c @ [CircuitInstruction g qargs []]\<rparr>)
      else Inl CircuitError)"

definition to_instruction :: "circuit \<Rightarrow> operation" where
  "to_instruction c = SubCircuit (name c) (num_qubits c) (data c)"

text \<open>
  \<^verbatim>\<open>qc.measure_all()\<close>: a new classical register of one bit per qubit, a barrier over
  all qubits, and the measurement of each qubit into its bit of the new register.
\<close>

definition measure_all :: "circuit \<Rightarrow> circuit" where
  "measure_all c =
     c\<lparr>num_clbits := num_clbits c + num_qubits c,
       data := data c @ [CircuitInstruction Barrier [0..<num_qubits c] []]
                 @ map (\<lambda>q. CircuitInstruction Measure [q] [num_clbits c + q])
                     [0..<num_qubits c]\<rparr>"

subsection \<open>The store of circuit objects and the module's globals\<close>

text \<open>
  Circuits are mutable objects that the program shares by reference (the globals
  \<^verbatim>\<open>QC_\<close>, \<^verbatim>\<open>Hf_\<close>, \<^verbatim>\<open>CO_\<close> alias the circuits the functions return). The store is the
  list of the objects created so far; a reference is an index into it, and a new object
  goes to the end. A function takes the state and returns its result, or the exception it
  raised, together with the state it leaves behind.
\<close>

type_synonym ref = nat

record state =
  heap :: "circuit list"
  QC_saved :: "ref option"
  Hf_saved :: "ref option"
  CO_saved :: "ref option"
  normalization :: "real option"

type_synonym 'a result = "(error + 'a) \<times> state"

definition alloc :: "circuit \<Rightarrow> state \<Rightarrow> ref \<times> state" where
  "alloc c st = (length (heap st), st\<lparr>heap := heap st @ [c]\<rparr>)"

text \<open>A method that changes the object behind a reference in place, or raises.\<close>

definition mutate :: "ref \<Rightarrow> (circuit \<Rightarrow> error + circuit) \<Rightarrow> state \<Rightarrow> unit result" where
  "mutate r f st =
     (case f (heap st ! r) of
        Inl e \<Rightarrow> (Inl e, st)
      | Inr c \<Rightarrow> (Inr (), st\<lparr>heap := (heap st)[r := c]\<rparr>))"

text \<open>A \<^verbatim>\<open>for\<close> loop over a list; an exception in the body ends it.\<close>

fun for_each :: "'a list \<Rightarrow> ('a \<Rightarrow> state \<Rightarrow> unit result) \<Rightarrow> state \<Rightarrow> unit result" where
  "for_each [] body st = (Inr (), st)"
| "for_each (x # xs) body st =
     (case body x st of
        (Inl e, st1) \<Rightarrow> (Inl e, st1)
      | (Inr _, st1) \<Rightarrow> for_each xs body st1)"

text \<open>Python's \<^verbatim>\<open>range(n)\<close> and \<^verbatim>\<open>range(a, b)\<close>, and \<^verbatim>\<open>int(n / 2)\<close>, which truncates.\<close>

definition py_range :: "int \<Rightarrow> int \<Rightarrow> int list" where
  "py_range a b = [a..b - 1]"

definition int_half :: "int \<Rightarrow> int" where
  "int_half n = (if 0 \<le> n then n div 2 else - ((- n) div 2))"

subsection \<open>\<^verbatim>\<open>HartreeFock\<close> (lines 164 to 183)\<close>

definition HartreeFock :: "int \<Rightarrow> int \<Rightarrow> int \<Rightarrow> state \<Rightarrow> ref result" where
  "HartreeFock norb na nb st =
     (case QuantumCircuit norb ''Hf'' of
        Inl e \<Rightarrow> (Inl e, st)
      | Inr c \<Rightarrow>
          (let (qc, st1) = alloc c st in
            (case for_each (py_range 0 na) (\<lambda>ia. mutate qc (gate1 XGate ia)) st1 of
               (Inl e, st2) \<Rightarrow> (Inl e, st2)
             | (Inr _, st2) \<Rightarrow>
                 (case for_each (py_range 0 nb)
                         (\<lambda>ib. mutate qc (gate1 XGate (ib + int_half norb))) st2 of
                    (Inl e, st3) \<Rightarrow> (Inl e, st3)
                  | (Inr _, st3) \<Rightarrow>
                      (Inr qc,
                       if Hf_saved st3 = None \<or> norb \<le> 4
                       then (if norb < 7 then st3\<lparr>Hf_saved := Some qc\<rparr> else st3)
                       else st3)))))"

subsection \<open>\<^verbatim>\<open>ExpectationCircuit\<close> (lines 124 to 160)\<close>

text \<open>\<^verbatim>\<open>qc.copy()\<close>: a new object with the contents of the old one.\<close>

definition copy :: "ref \<Rightarrow> state \<Rightarrow> ref \<times> state" where
  "copy qc st = alloc (heap st ! qc) st"

text \<open>
  The basis-rotation loop over \<^verbatim>\<open>enumerate(PauliString)\<close>; \<^verbatim>\<open>is_diag\<close> is the local
  variable the loop assigns.
\<close>

fun basis_rotation ::
  "ref \<Rightarrow> int \<Rightarrow> (nat \<times> char) list \<Rightarrow> bool \<Rightarrow> state \<Rightarrow> bool result" where
  "basis_rotation raw_qc nqubit [] is_diag st = (Inr is_diag, st)"
| "basis_rotation raw_qc nqubit ((i, p) # rest) is_diag st =
     (if p = CHR ''X'' then
        (case mutate raw_qc (gate1 HGate (nqubit - int i - 1)) st of
           (Inl e, st1) \<Rightarrow> (Inl e, st1)
         | (Inr _, st1) \<Rightarrow> basis_rotation raw_qc nqubit rest False st1)
      else if p = CHR ''Y'' then
        (case mutate raw_qc (gate1 SdgGate (nqubit - int i - 1)) st of
           (Inl e, st1) \<Rightarrow> (Inl e, st1)
         | (Inr _, st1) \<Rightarrow>
             (case mutate raw_qc (gate1 HGate (nqubit - int i - 1)) st1 of
                (Inl e, st2) \<Rightarrow> (Inl e, st2)
              | (Inr _, st2) \<Rightarrow> basis_rotation raw_qc nqubit rest False st2))
      else basis_rotation raw_qc nqubit rest is_diag st)"

text \<open>
  The function itself. \<open>str_float\<close> stands for the SDK's printing of the real part of
  the coefficient, \<^verbatim>\<open>str(np.real(coeff))\<close>. The parameter \<^verbatim>\<open>method\<close> of the source is
  never read and is left out.
\<close>

definition ExpectationCircuit ::
  "(real \<Rightarrow> string) \<Rightarrow> ref \<Rightarrow> sparse_pauli_op \<Rightarrow> int \<Rightarrow> state \<Rightarrow> (ref \<times> bool) result" where
  "ExpectationCircuit str_float qc pauli nqubit st =
     (let (raw_qc, st1) = copy qc st in
       (case to_list pauli of
          [] \<Rightarrow> (Inl IndexError, st1)
        | (PauliString, coeff) # _ \<Rightarrow>
            (case basis_rotation raw_qc nqubit (enumerate 0 PauliString) True st1 of
               (Inl e, st2) \<Rightarrow> (Inl e, st2)
             | (Inr is_diag, st2) \<Rightarrow>
                 (case mutate raw_qc (\<lambda>c. Inr (measure_all c)) st2 of
                    (Inl e, st3) \<Rightarrow> (Inl e, st3)
                  | (Inr _, st3) \<Rightarrow>
                      (case mutate raw_qc
                              (\<lambda>c. Inr (c\<lparr>name := PauliString @ '' '' @ str_float coeff\<rparr>))
                              st3 of
                         (Inl e, st4) \<Rightarrow> (Inl e, st4)
                       | (Inr _, st4) \<Rightarrow>
                           (Inr (raw_qc, is_diag),
                            if QC_saved st4 = None \<or> nqubit \<le> 4
                            then (if nqubit < 7 then st4\<lparr>QC_saved := Some raw_qc\<rparr> else st4)
                            else st4))))))"

text \<open>
  The gates the measurement basis of one character asks for, in the words of the
  specification: H on qubit \<open>nqubit - i - 1\<close> for \<open>X\<close>, Sdg then H on that qubit for \<open>Y\<close>,
  nothing for any other character.
\<close>

definition basis_gates :: "int \<Rightarrow> nat \<times> char \<Rightarrow> circuit_instruction list" where
  "basis_gates nqubit ip =
     (let target = nat (nqubit - int (fst ip) - 1) in
      if snd ip = CHR ''X'' then [CircuitInstruction HGate [target] []]
      else if snd ip = CHR ''Y'' then
        [CircuitInstruction SdgGate [target] [], CircuitInstruction HGate [target] []]
      else [])"

text \<open>The barrier and the measurements that \<^verbatim>\<open>measure_all\<close> adds to a circuit.\<close>

definition measurements :: "circuit \<Rightarrow> circuit_instruction list" where
  "measurements c =
     CircuitInstruction Barrier [0..<num_qubits c] []
       # map (\<lambda>q. CircuitInstruction Measure [q] [num_clbits c + q]) [0..<num_qubits c]"

text \<open>A store that holds one empty circuit on two qubits, and a stand-in printer.\<close>

definition two_qubit_state :: state where
  "two_qubit_state =
     \<lparr>heap = [\<lparr>name = ''qc'', num_qubits = 2, num_clbits = 0, data = [],
                metadata = Map.empty\<rparr>],
      QC_saved = None, Hf_saved = None, CO_saved = None, normalization = None\<rparr>"

definition print_half :: "real \<Rightarrow> string" where
  "print_half x = ''0.5''"

subsection \<open>\<^verbatim>\<open>readPauliExcitation\<close> (lines 190 to 224) and \<^verbatim>\<open>ReadHamiltonian\<close> (lines 228 to 246)\<close>

text \<open>
  The data files are inputs. A file holds a JSON dictionary from Pauli labels to
  numbers; the dictionary \<^verbatim>\<open>json.loads\<close> returns is modelled by the list of its items in
  the order of the file, which is the order in which Python iterates over it. A
  directory of such files is a partial function from what the file name is built from
  (the qubit count, and for an ansatz the circuit id) to the dictionary; a missing file
  is \<open>None\<close>.
\<close>

type_synonym pauli_dict = "pauli_term list"

text \<open>
  The numbers of a file are floats, each the real number it is. (An integer in a file
  behaves in the arithmetic below as the float of its value does while its magnitude is
  below \<open>2 ^ 53\<close>.) The difference of two floats is the exact difference rounded to the
  nearest float, ties to the even significand: \<open>round_double\<close>, for the binary64 format
  with its 53 significant bits and its least exponent \<open>- 1022\<close>. The difference of two
  magnitudes does not overflow. The literal \<^verbatim>\<open>1e-4\<close> is the float nearest to
  \<open>1 / 10000\<close>, which is \<open>7378697629483821 / 2 ^ 66\<close>; \<^verbatim>\<open>1e4\<close> and \<^verbatim>\<open>1e5\<close> are the
  integers they look like.
\<close>

definition round_half_even :: "real \<Rightarrow> int" where
  "round_half_even r =
     (if r - of_int \<lfloor>r\<rfloor> < 1 / 2 then \<lfloor>r\<rfloor>
      else if 1 / 2 < r - of_int \<lfloor>r\<rfloor> then \<lfloor>r\<rfloor> + 1
      else if even \<lfloor>r\<rfloor> then \<lfloor>r\<rfloor> else \<lfloor>r\<rfloor> + 1)"

definition round_double :: "real \<Rightarrow> real" where
  "round_double x =
     (if x = 0 then 0
      else 2 powr (of_int (max \<lfloor>log 2 \<bar>x\<bar>\<rfloor> (- 1022)) - 52)
             * of_int (round_half_even
                         (x / 2 powr (of_int (max \<lfloor>log 2 \<bar>x\<bar>\<rfloor> (- 1022)) - 52))))"

definition double_1e_4 :: real where
  "double_1e_4 = 7378697629483821 / 73786976294838206464"

text \<open>
  The loop over the excitations. Its state is \<^verbatim>\<open>cur_coeff\<close>, \<^verbatim>\<open>cur_list\<close> and
  \<^verbatim>\<open>pauli_list\<close>. The second test is line 213,
  \<^verbatim>\<open>abs(abs(ansatz_dict[ext]) - abs(cur_coeff)) > 1e-4\<close>.
\<close>

fun excitation_loop ::
  "pauli_dict \<Rightarrow> real \<Rightarrow> pauli_term list \<Rightarrow> sparse_pauli_op list
     \<Rightarrow> error + real \<times> pauli_term list \<times> sparse_pauli_op list" where
  "excitation_loop [] cur_coeff cur_list pauli_list = Inr (cur_coeff, cur_list, pauli_list)"
| "excitation_loop ((ext, v) # rest) cur_coeff cur_list pauli_list =
     (if cur_coeff > 10000 then excitation_loop rest v [(ext, v)] pauli_list
      else if \<bar>round_double (\<bar>v\<bar> - \<bar>cur_coeff\<bar>)\<bar> > double_1e_4 then
        (case from_list cur_list of
           Inl e \<Rightarrow> Inl e
         | Inr P \<Rightarrow> excitation_loop rest v [(ext, v)] (pauli_list @ [P]))
      else excitation_loop rest cur_coeff (cur_list @ [(ext, v)]) pauli_list)"

definition readPauliExcitation ::
  "(int \<Rightarrow> int \<Rightarrow> pauli_dict option) \<Rightarrow> int \<Rightarrow> int \<Rightarrow> error + sparse_pauli_op list" where
  "readPauliExcitation ansatzes norb circuit_id =
     (case ansatzes norb circuit_id of
        None \<Rightarrow> Inl FileNotFoundError
      | Some ansatz_dict \<Rightarrow>
          (case excitation_loop ansatz_dict 100000 [] [] of
             Inl e \<Rightarrow> Inl e
           | Inr (cur_coeff, cur_list, pauli_list) \<Rightarrow>
               (case from_list cur_list of
                  Inl e \<Rightarrow> Inl e
                | Inr P \<Rightarrow> Inr (pauli_list @ [P]))))"

definition ReadHamiltonian ::
  "(int \<Rightarrow> pauli_dict option) \<Rightarrow> int \<Rightarrow> error + sparse_pauli_op" where
  "ReadHamiltonian hamiltonians nqubit =
     (case hamiltonians nqubit of
        None \<Rightarrow> Inl FileNotFoundError
      | Some ham_dict \<Rightarrow> from_list (map (\<lambda>(p, v). (p, v)) ham_dict))"

text \<open>
  The grouping in the words of the specification: an entry belongs to the current group
  as long as the magnitude of its coefficient differs from the magnitude of the group's
  first coefficient by no more than \<^verbatim>\<open>1e-4\<close>, in the arithmetic of the program, and
  the first entry that differs by more starts the next group.
\<close>

definition near :: "real \<Rightarrow> pauli_term \<Rightarrow> bool" where
  "near c t = (\<not> \<bar>round_double (\<bar>snd t\<bar> - \<bar>c\<bar>)\<bar> > double_1e_4)"

function coefficient_groups :: "pauli_term list \<Rightarrow> pauli_term list list" where
  "coefficient_groups [] = []"
| "coefficient_groups (t # ts) =
     (t # takeWhile (near (snd t)) ts) # coefficient_groups (dropWhile (near (snd t)) ts)"
  by pat_completeness auto
termination
  by (relation "measure length") (auto simp add: length_dropWhile_le less_Suc_eq_le)

text \<open>
  Three ansatz directories to evaluate the grouping on: one with coefficients of the
  usual size, one whose coefficients exceed \<open>10000\<close>, and one with the floats that
  \<^verbatim>\<open>0.1\<close> and \<^verbatim>\<open>0.0999\<close> denote, \<open>3602879701896397 / 2 ^ 55\<close> and
  \<open>7198553644389001 / 2 ^ 56\<close>, whose difference is just above the float \<^verbatim>\<open>1e-4\<close>.
\<close>

definition small_ansatzes :: "int \<Rightarrow> int \<Rightarrow> pauli_dict option" where
  "small_ansatzes norb circuit_id =
     Some [(''XX'', 1 / 2), (''YY'', - (1 / 2)), (''ZZ'', 1 / 4), (''ZI'', 1 / 2)]"

definition close_ansatzes :: "int \<Rightarrow> int \<Rightarrow> pauli_dict option" where
  "close_ansatzes norb circuit_id =
     Some [(''XX'', 3602879701896397 / 36028797018963968),
           (''YY'', 7198553644389001 / 72057594037927936)]"

definition large_ansatzes :: "int \<Rightarrow> int \<Rightarrow> pauli_dict option" where
  "large_ansatzes norb circuit_id = Some [(''XX'', 20000), (''YY'', 20000)]"

subsection \<open>Printing integers and tuples\<close>

text \<open>Python's \<^verbatim>\<open>str\<close> of an integer and of a tuple of integers, as f-strings use it.\<close>

function str_nat :: "nat \<Rightarrow> string" where
  "str_nat n =
     (if n < 10 then [char_of (48 + n)]
      else str_nat (n div 10) @ [char_of (48 + n mod 10)])"
  by pat_completeness auto
termination
  by (relation "measure id") auto

declare str_nat.simps [simp del]

definition str_int :: "int \<Rightarrow> string" where
  "str_int i = (if i < 0 then CHR ''-'' # str_nat (nat (- i)) else str_nat (nat i))"

fun join :: "string \<Rightarrow> string list \<Rightarrow> string" where
  "join sep [] = []"
| "join sep [s] = s"
| "join sep (s # t # ss) = s @ sep @ join sep (t # ss)"

definition str_tuple :: "int list \<Rightarrow> string" where
  "str_tuple xs =
     (case xs of
        [x] \<Rightarrow> ''('' @ str_int x @ '',)''
      | _ \<Rightarrow> ''('' @ join '', '' (map str_int xs) @ '')'')"

subsection \<open>\<^verbatim>\<open>ClusterOperatorCircuit\<close> (lines 105 to 120)\<close>

text \<open>
  \<^verbatim>\<open>PauliEvolutionGate(pauli_op, synthesis=LieTrotter())\<close> takes the SDK's defaults: the
  evolution time 1 and one repetition of the first-order product formula. A circuit made
  without a name gets one from the SDK's counter, \<open>circuit\<close> here; the function assigns
  the name right after.
\<close>

definition ClusterOperatorCircuit ::
  "sparse_pauli_op \<Rightarrow> int list \<Rightarrow> state \<Rightarrow> ref result" where
  "ClusterOperatorCircuit pauli_op excitationIndex st =
     (let n = op_num_qubits pauli_op;
          qc_op = PauliEvolutionGate pauli_op 1 (LieTrotter 1) in
       (case QuantumCircuit (int n) ''circuit'' of
          Inl e \<Rightarrow> (Inl e, st)
        | Inr c \<Rightarrow>
            (let (qc, st1) = alloc c st in
              (case mutate qc (append_op qc_op [0..<n]) st1 of
                 (Inl e, st2) \<Rightarrow> (Inl e, st2)
               | (Inr _, st2) \<Rightarrow>
                   (case mutate qc
                           (\<lambda>c. Inr (c\<lparr>name := ''Cluster Op '' @ str_tuple excitationIndex\<rparr>))
                           st2 of
                      (Inl e, st3) \<Rightarrow> (Inl e, st3)
                    | (Inr _, st3) \<Rightarrow>
                        (Inr qc,
                         if CO_saved st3 = None \<or> num_qubits (heap st3 ! qc) \<le> 4
                         then (if num_qubits (heap st3 ! qc) < 7
                               then st3\<lparr>CO_saved := Some qc\<rparr> else st3)
                         else st3))))))"

subsection \<open>\<^verbatim>\<open>VQEEnergy\<close> (lines 38 to 101)\<close>

text \<open>The list of single and double excitations, lines 56 to 69.\<close>

definition excitations :: "int \<Rightarrow> int \<Rightarrow> int \<Rightarrow> int list list" where
  "excitations n_spin_orbs na nb =
     (let norb_a = int_half n_spin_orbs in
        concat (map (\<lambda>occ_a. map (\<lambda>vir_a. [occ_a, vir_a]) (py_range na norb_a))
                  (py_range 0 na))
      @ concat (map (\<lambda>occ_b. map (\<lambda>vir_b. [occ_b, vir_b])
                                (py_range (norb_a + nb) n_spin_orbs))
                  (py_range norb_a (norb_a + nb)))
      @ concat (map (\<lambda>occ_a.
          concat (map (\<lambda>vir_a.
            concat (map (\<lambda>occ_b.
              map (\<lambda>vir_b. [occ_a, vir_a, occ_b, vir_b])
                (py_range (norb_a + nb) n_spin_orbs))
              (py_range norb_a (norb_a + nb))))
            (py_range na norb_a)))
          (py_range 0 na)))"

text \<open>
  The body of the loop over \<^verbatim>\<open>enumerate(pauli_list)\<close>, lines 75 to 80:
  \<^verbatim>\<open>excitationList[index]\<close> raises when the index is past the end of the list.
\<close>

definition cluster_step ::
  "ref \<Rightarrow> int list list \<Rightarrow> nat \<times> sparse_pauli_op \<Rightarrow> state \<Rightarrow> unit result" where
  "cluster_step qc excitationList ip st =
     (if fst ip < length excitationList then
        (case ClusterOperatorCircuit (snd ip) (excitationList ! fst ip) st of
           (Inl e, st1) \<Rightarrow> (Inl e, st1)
         | (Inr cluster_qc, st1) \<Rightarrow>
             mutate qc (append_op (to_instruction (heap st1 ! cluster_qc))
                          [0..<num_qubits (heap st1 ! cluster_qc)]) st1)
      else (Inl IndexError, st))"

text \<open>
  Lines 38 to 86: the ansatz circuit. The result is the circuit and the Hamiltonian that
  was read first.
\<close>

definition ansatz_circuit ::
  "(int \<Rightarrow> pauli_dict option) \<Rightarrow> (int \<Rightarrow> int \<Rightarrow> pauli_dict option)
     \<Rightarrow> int \<Rightarrow> int \<Rightarrow> int \<Rightarrow> int \<Rightarrow> int \<Rightarrow> state \<Rightarrow> (ref \<times> sparse_pauli_op) result" where
  "ansatz_circuit hamiltonians ansatzes n_spin_orbs na nb circuit_id method st =
     (case ReadHamiltonian hamiltonians n_spin_orbs of
        Inl e \<Rightarrow> (Inl e, st)
      | Inr qubit_op \<Rightarrow>
     (case QuantumCircuit n_spin_orbs
             (''vqe-ansatz('' @ str_int method @ '') '' @ str_int n_spin_orbs @ '' ''
                @ str_int circuit_id) of
        Inl e \<Rightarrow> (Inl e, st)
      | Inr c \<Rightarrow>
     (let (qc, st1) = alloc c st in
     (case HartreeFock n_spin_orbs na nb st1 of
        (Inl e, st2) \<Rightarrow> (Inl e, st2)
      | (Inr Hf, st2) \<Rightarrow>
     (case mutate qc (append_op (to_instruction (heap st2 ! Hf)) [0..<nat n_spin_orbs]) st2 of
        (Inl e, st3) \<Rightarrow> (Inl e, st3)
      | (Inr _, st3) \<Rightarrow>
     (case readPauliExcitation ansatzes n_spin_orbs circuit_id of
        Inl e \<Rightarrow> (Inl e, st3)
      | Inr pauli_list \<Rightarrow>
     (case for_each (enumerate 0 pauli_list)
             (cluster_step qc (excitations n_spin_orbs na nb)) st3 of
        (Inl e, st4) \<Rightarrow> (Inl e, st4)
      | (Inr _, st4) \<Rightarrow>
          (Inr (qc, qubit_op),
           if QC_saved st4 = None
           then (if num_qubits (heap st4 ! qc) < 7 then st4\<lparr>QC_saved := Some qc\<rparr> else st4)
           else st4))))))))"

text \<open>
  Lines 88 to 101: the two methods. What \<^verbatim>\<open>VQEEnergy\<close> returns with the circuit is one
  operator for method 1 and a list of operators otherwise. \<open>str_float\<close> prints the
  coefficient for the metadata, and \<open>commuting_groups\<close> stands for
  \<^verbatim>\<open>len(qubit_op.group_commuting(qubit_wise=True))\<close>, both from the SDK.
\<close>

datatype observables = Observable sparse_pauli_op | ObservableList "sparse_pauli_op list"

definition set_metadata :: "string \<Rightarrow> meta_val \<Rightarrow> circuit \<Rightarrow> error + circuit" where
  "set_metadata k v c = Inr (c\<lparr>metadata := (metadata c)(k \<mapsto> v)\<rparr>)"

definition VQEEnergy ::
  "(real \<Rightarrow> string) \<Rightarrow> (sparse_pauli_op \<Rightarrow> nat)
     \<Rightarrow> (int \<Rightarrow> pauli_dict option) \<Rightarrow> (int \<Rightarrow> int \<Rightarrow> pauli_dict option)
     \<Rightarrow> int \<Rightarrow> int \<Rightarrow> int \<Rightarrow> int \<Rightarrow> int \<Rightarrow> state \<Rightarrow> (ref \<times> observables) result" where
  "VQEEnergy str_float commuting_groups hamiltonians ansatzes
       n_spin_orbs na nb circuit_id method st =
     (case ansatz_circuit hamiltonians ansatzes n_spin_orbs na nb circuit_id method st of
        (Inl e, st1) \<Rightarrow> (Inl e, st1)
      | (Inr (qc, qubit_op), st1) \<Rightarrow>
          if method = 1 then
            (case op_getitem qubit_op 1 of
               Inl e \<Rightarrow> (Inl e, st1)
             | Inr P \<Rightarrow>
                 (case mutate qc
                         (set_metadata ''method1''
                            (MStr (fst (hd (to_list P)) @ '' '' @ str_float (snd (hd (to_list P))))))
                         st1 of
                    (Inl e, st2) \<Rightarrow> (Inl e, st2)
                  | (Inr _, st2) \<Rightarrow> (Inr (qc, Observable P), st2)))
          else
            (let qubit_op1 = op_slice_from qubit_op 1;
                 total = sum_list (map (\<lambda>p. \<bar>snd (hd (to_list p))\<bar>) (op_list qubit_op1));
                 st2 = st1\<lparr>normalization := Some total\<rparr>
             in if commuting_groups qubit_op1 = 0 then (Inl ZeroDivisionError, st2)
                else
                  (let st3 = st2\<lparr>normalization :=
                                    Some (total / real (commuting_groups qubit_op1))\<rparr> in
                    (case mutate qc (set_metadata ''method2'' (MOp qubit_op1)) st3 of
                       (Inl e, st4) \<Rightarrow> (Inl e, st4)
                     | (Inr _, st4) \<Rightarrow> (Inr (qc, ObservableList (op_list qubit_op1)), st4)))))"

text \<open>
  The instruction that one grouped operator leaves in the ansatz circuit, in the words of
  the specification: the cluster-operator circuit of the operator, which holds the
  first-order Trotter evolution gate of the operator and nothing else.
\<close>

definition cluster_instruction ::
  "int list list \<Rightarrow> nat \<times> sparse_pauli_op \<Rightarrow> circuit_instruction" where
  "cluster_instruction excitationList ip =
     CircuitInstruction
       (SubCircuit (''Cluster Op '' @ str_tuple (excitationList ! fst ip))
          (op_num_qubits (snd ip))
          [CircuitInstruction (PauliEvolutionGate (snd ip) 1 (LieTrotter 1))
             [0..<op_num_qubits (snd ip)] []])
       [0..<op_num_qubits (snd ip)] []"

text \<open>A small Hamiltonian directory and ansatz directory on four qubits.\<close>

definition sample_hamiltonians :: "int \<Rightarrow> pauli_dict option" where
  "sample_hamiltonians nqubit =
     (if nqubit = 4 then Some [(''IIII'', 1), (''ZIII'', 1 / 2), (''IZII'', 1 / 4)] else None)"

definition sample_ansatzes :: "int \<Rightarrow> int \<Rightarrow> pauli_dict option" where
  "sample_ansatzes norb circuit_id =
     (if norb = 4 then Some [(''IIXY'', 1 / 8), (''IIYX'', - (1 / 8)), (''XYII'', 1 / 4)]
      else None)"

definition empty_state :: state where
  "empty_state = \<lparr>heap = [], QC_saved = None, Hf_saved = None, CO_saved = None,
                   normalization = None\<rparr>"

text \<open>
  The instruction the Hartree-Fock circuit leaves in the ansatz circuit: the X gates on
  the occupied alpha and beta orbitals, as one instruction over all qubits.
\<close>

definition hf_instruction :: "int \<Rightarrow> int \<Rightarrow> int \<Rightarrow> circuit_instruction" where
  "hf_instruction norb na nb =
     CircuitInstruction
       (SubCircuit ''Hf'' (nat norb)
          (map (\<lambda>q. CircuitInstruction XGate [q] [])
             (map nat [0..na - 1] @ map (\<lambda>ib. nat (ib + norb div 2)) [0..nb - 1])))
       [0..<nat norb] []"

text \<open>Stand-ins for the two SDK functions, to evaluate \<^verbatim>\<open>VQEEnergy\<close> on the samples.\<close>

definition sample_str_float :: "real \<Rightarrow> string" where
  "sample_str_float x = ''0.5''"

definition sample_commuting_groups :: "sparse_pauli_op \<Rightarrow> nat" where
  "sample_commuting_groups P = op_size P"

subsection \<open>\<^verbatim>\<open>analyze_and_print_result\<close> (lines 254 to 292)\<close>

text \<open>
  A character of a string is its code point, below 256. Python's \<^verbatim>\<open>str.split()\<close>
  without arguments gives the maximal runs of characters that are not white space; the
  white space below 256 is tab, line feed, vertical tab, form feed, carriage return, the
  four separators, space, next line (U+0085) and no-break space (U+00A0).
\<close>

definition is_space :: "char \<Rightarrow> bool" where
  "is_space c = (of_char c \<in> {9, 10, 11, 12, 13, 28, 29, 30, 31, 32, 133, 160 :: nat})"

fun split_loop :: "string \<Rightarrow> string \<Rightarrow> string list" where
  "split_loop [] cur = (if cur = [] then [] else [cur])"
| "split_loop (c # cs) cur =
     (if is_space c then (if cur = [] then split_loop cs [] else cur # split_loop cs [])
      else split_loop cs (cur @ [c]))"

definition split :: "string \<Rightarrow> string list" where
  "split s = split_loop s []"

text \<open>
  Python's \<^verbatim>\<open>int(s)\<close> on a string without white space: an optional sign, then decimal
  digits, where single underscores may stand between digits, and no more than 4300
  digits (the interpreter's limit for the conversion between integers and strings).
  Anything else is a \<^verbatim>\<open>ValueError\<close>, here \<open>None\<close>. Below 256 the decimal digits are
  \<open>0\<close> to \<open>9\<close>.
\<close>

definition is_digit :: "char \<Rightarrow> bool" where
  "is_digit c = (48 \<le> (of_char c :: nat) \<and> (of_char c :: nat) \<le> 57)"

fun digits :: "string \<Rightarrow> nat \<Rightarrow> bool \<Rightarrow> nat option" where
  "digits [] acc after_digit = (if after_digit then Some acc else None)"
| "digits (c # cs) acc after_digit =
     (if is_digit c then digits cs (10 * acc + (of_char c - 48)) True
      else if c = CHR ''_'' \<and> after_digit then digits cs acc False
      else None)"

definition int_of_str :: "string \<Rightarrow> int option" where
  "int_of_str s =
     (if 4300 < length (filter is_digit s) then None
      else
        (case s of
           [] \<Rightarrow> None
         | c # cs \<Rightarrow>
             if c = CHR ''-'' then map_option (\<lambda>n. - int n) (digits cs 0 False)
             else if c = CHR ''+'' then map_option int (digits cs 0 False)
             else map_option int (digits s 0 False)))"

text \<open>
  An integer in an f-string: its decimal form, or a \<^verbatim>\<open>ValueError\<close> when that has more
  than 4300 digits.
\<close>

definition format_int :: "int \<Rightarrow> error + string" where
  "format_int i =
     (if 4300 < length (str_nat (nat \<bar>i\<bar>)) then Inl ValueError else Inr (str_int i))"

text \<open>
  The reference data is a dictionary from a key to a dictionary of numbers; a fidelity is
  a dictionary of numbers too. What the execution returned for the circuit,
  \<^verbatim>\<open>result.get_expectation_values(qc)\<close>, is a number or a sequence of numbers.
\<close>

type_synonym number_dict = "string \<rightharpoonup> real"

type_synonym reference_dict = "string \<rightharpoonup> number_dict"

datatype expvals = Scalar real | Vector "real list"

definition getitem :: "('k \<rightharpoonup> 'v) \<Rightarrow> 'k \<Rightarrow> ('k \<Rightarrow> string) \<Rightarrow> error + 'v" where
  "getitem d k show_key = (case d k of None \<Rightarrow> Inl (KeyError (show_key k)) | Some v \<Rightarrow> Inr v)"

text \<open>
  \<^verbatim>\<open>metrics.accuracy_ratio_fidelity(value, ref["exact"], ref["min"], ref["max"])\<close>: the
  three entries of the reference are read from left to right, then the function of the
  metrics module, which is not part of this file and is the parameter
  \<open>accuracy_ratio_fidelity\<close>, computes the fidelity dictionary.
\<close>

definition fidelity_against ::
  "(expvals \<Rightarrow> real \<Rightarrow> real \<Rightarrow> real \<Rightarrow> number_dict) \<Rightarrow> expvals \<Rightarrow> number_dict
     \<Rightarrow> error + number_dict" where
  "fidelity_against accuracy_ratio_fidelity v ref =
     (case getitem ref ''exact'' id of
        Inl e \<Rightarrow> Inl e
      | Inr exact \<Rightarrow>
          (case getitem ref ''min'' id of
             Inl e \<Rightarrow> Inl e
           | Inr lo \<Rightarrow>
               (case getitem ref ''max'' id of
                  Inl e \<Rightarrow> Inl e
                | Inr hi \<Rightarrow> Inr (accuracy_ratio_fidelity v exact lo hi))))"

text \<open>Lines 256 to 261 and 268 to 275: the scoring of method 1.\<close>

definition method1_score ::
  "(expvals \<Rightarrow> real \<Rightarrow> real \<Rightarrow> real \<Rightarrow> number_dict) \<Rightarrow> meta_val \<Rightarrow> expvals \<Rightarrow> int
     \<Rightarrow> reference_dict \<Rightarrow> error + number_dict" where
  "method1_score accuracy_ratio_fidelity total_name expval n_qubits references =
     (case total_name of
        MOp _ \<Rightarrow> Inl AttributeError
      | MStr s \<Rightarrow>
          if length (split s) \<le> 2 then Inl IndexError
          else
            (case int_of_str (split s ! 2) of
               None \<Rightarrow> Inl ValueError
             | Some circuit_id \<Rightarrow>
                 (case format_int n_qubits of
                    Inl e \<Rightarrow> Inl e
                  | Inr qubits_str \<Rightarrow>
                      (case format_int circuit_id of
                         Inl e \<Rightarrow> Inl e
                       | Inr id_str \<Rightarrow>
                           (case getitem references
                                   (''Qubits - '' @ qubits_str @ '' - '' @ id_str) id of
                              Inl e \<Rightarrow> Inl e
                            | Inr ref \<Rightarrow>
                                fidelity_against accuracy_ratio_fidelity expval ref)))))"

text \<open>
  Lines 278 to 287: the loop over \<^verbatim>\<open>zip(expval, qubit_op.to_list())\<close>, which adds the
  fidelity of each term to \<^verbatim>\<open>total_fidelity["fidelity"]\<close>.
\<close>

fun fidelity_loop ::
  "(expvals \<Rightarrow> real \<Rightarrow> real \<Rightarrow> real \<Rightarrow> number_dict) \<Rightarrow> reference_dict
     \<Rightarrow> (real \<times> pauli_term) list \<Rightarrow> real \<Rightarrow> error + real" where
  "fidelity_loop accuracy_ratio_fidelity references [] total_f = Inr total_f"
| "fidelity_loop accuracy_ratio_fidelity references ((val, (pauli, _)) # rest) total_f =
     (case getitem references pauli id of
        Inl e \<Rightarrow> Inl e
      | Inr ref \<Rightarrow>
          (case fidelity_against accuracy_ratio_fidelity (Scalar val) ref of
             Inl e \<Rightarrow> Inl e
           | Inr fidelity \<Rightarrow>
               (case getitem fidelity ''fidelity'' id of
                  Inl e \<Rightarrow> Inl e
                | Inr f \<Rightarrow>
                    fidelity_loop accuracy_ratio_fidelity references rest (total_f + f))))"

text \<open>Lines 262 to 264 and 277 to 292: the scoring of method 2.\<close>

definition method2_score ::
  "(expvals \<Rightarrow> real \<Rightarrow> real \<Rightarrow> real \<Rightarrow> number_dict) \<Rightarrow> meta_val \<Rightarrow> expvals
     \<Rightarrow> reference_dict \<Rightarrow> error + number_dict" where
  "method2_score accuracy_ratio_fidelity qubit_op expval references =
     (case qubit_op of
        MStr _ \<Rightarrow> Inl AttributeError
      | MOp P \<Rightarrow>
          (case expval of
             Scalar _ \<Rightarrow> Inl TypeError
           | Vector vals \<Rightarrow>
               (case fidelity_loop accuracy_ratio_fidelity references
                       (zip vals (to_list P)) 0 of
                  Inl e \<Rightarrow> Inl e
                | Inr total_f \<Rightarrow>
                    if op_size P = 0 then Inl ZeroDivisionError
                    else Inr [''fidelity'' \<mapsto> total_f / real (op_size P)])))"

text \<open>
  The function: the metadata of the circuit chooses the method. The circuit is only
  read; \<open>qc\<close> is the object as it is at the call. \<^verbatim>\<open>_num_shots\<close> is never read and is
  left out, and so is the printing under \<^verbatim>\<open>verbose\<close>.
\<close>

definition analyze_and_print_result ::
  "(expvals \<Rightarrow> real \<Rightarrow> real \<Rightarrow> real \<Rightarrow> number_dict) \<Rightarrow> circuit \<Rightarrow> expvals \<Rightarrow> int
     \<Rightarrow> reference_dict \<Rightarrow> error + number_dict" where
  "analyze_and_print_result accuracy_ratio_fidelity qc expval n_qubits references =
     (case metadata qc ''method1'' of
        Some total_name \<Rightarrow>
          method1_score accuracy_ratio_fidelity total_name expval n_qubits references
      | None \<Rightarrow>
          (case metadata qc ''method2'' of
             Some qubit_op \<Rightarrow> method2_score accuracy_ratio_fidelity qubit_op expval references
           | None \<Rightarrow> Inl (RuntimeError ''Either method 1 or 2 should be chosen'')))"

subsection \<open>\<^verbatim>\<open>execution_handler\<close> (lines 352 to 379)\<close>





text \<open>Sample inputs of the analysis: a stand-in for the metrics module and reference data.\<close>

definition sample_fidelity :: "expvals \<Rightarrow> real \<Rightarrow> real \<Rightarrow> real \<Rightarrow> number_dict" where
  "sample_fidelity v exact lo hi =
     [''fidelity'' \<mapsto> (case v of Scalar x \<Rightarrow> x * exact | Vector _ \<Rightarrow> 0)]"


definition sample_references1 :: reference_dict where
  "sample_references1 = [''Qubits - 4 - 0'' \<mapsto> [''exact'' \<mapsto> 1, ''min'' \<mapsto> 0, ''max'' \<mapsto> 2]]"

definition sample_references2 :: reference_dict where
  "sample_references2 =
     [''ZIII'' \<mapsto> [''exact'' \<mapsto> 1 / 2, ''min'' \<mapsto> 0, ''max'' \<mapsto> 1],
      ''IZII'' \<mapsto> [''exact'' \<mapsto> 1 / 4, ''min'' \<mapsto> 0, ''max'' \<mapsto> 1]]"


definition sample_qc1 :: circuit where
  "sample_qc1 = \<lparr>name = ''vqe-ansatz(1) 4 0'', num_qubits = 4, num_clbits = 0, data = [],
                 metadata = [''method1'' \<mapsto> MStr ''ZIII 0.5 0'']\<rparr>"

definition sample_qc2 :: circuit where
  "sample_qc2 = \<lparr>name = ''vqe-ansatz(2) 4 0'', num_qubits = 4, num_clbits = 0, data = [],
                 metadata = [''method2'' \<mapsto>
                   MOp (SparsePauliOp [(''ZIII'', 1 / 2), (''IZII'', 1 / 4)])]\<rparr>"

section \<open>Properties\<close>

subsection \<open>Validated parameters\<close>

lemma range_step2_nth:
  "i < length (range_step2 a b) \<Longrightarrow> range_step2 a b ! i = a + 2 * int i"
proof (induction a b arbitrary: i rule: range_step2.induct)
  case (1 start stop)
  show ?case
  proof (cases "start < stop")
    case True
    with "1.prems" "1.IH" show ?thesis
      by (cases i) (simp_all add: range_step2.simps [of start stop])
  next
    case False
    with "1.prems" show ?thesis
      by (simp add: range_step2.simps [of start stop])
  qed
qed

lemma range_step2_set:
  "set (range_step2 a b) = {x. a \<le> x \<and> x < b \<and> even (x - a)}"
proof (induction a b rule: range_step2.induct)
  case (1 start stop)
  show ?case
  proof (cases "start < stop")
    case True
    have "set (range_step2 start stop) = insert start (set (range_step2 (start + 2) stop))"
      using True by (simp add: range_step2.simps [of start stop])
    also have "\<dots> = insert start {x. start + 2 \<le> x \<and> x < stop \<and> even (x - (start + 2))}"
      using True "1.IH" by simp
    also have "\<dots> = {x. start \<le> x \<and> x < stop \<and> even (x - start)}"
    proof (rule set_eqI)
      fix x
      have "x = start \<or> start + 2 \<le> x \<and> even (x - (start + 2))
            \<longleftrightarrow> start \<le> x \<and> even (x - start)" (is "?l \<longleftrightarrow> ?r")
      proof
        assume ?l then show ?r by auto
      next
        assume r: ?r
        show ?l
        proof (cases "x = start")
          case True then show ?thesis by simp
        next
          case False
          with r have "start < x" by simp
          with r have "start + 2 \<le> x" by presburger
          with r show ?thesis by simp
        qed
      qed
      with True show "x \<in> insert start {x. start + 2 \<le> x \<and> x < stop \<and> even (x - (start + 2))}
                     \<longleftrightarrow> x \<in> {x. start \<le> x \<and> x < stop \<and> even (x - start)}"
        by auto
    qed
    finally show ?thesis .
  next
    case False
    then show ?thesis
      by (auto simp add: range_step2.simps [of start stop])
  qed
qed

text \<open>
  What the validation does establish, for every argument: both bounds lie between 4 and
  12, the lower bound is even, and it exceeds the upper bound by at most one.
\<close>

lemma validate_params_bounds:
  assumes "validate_params min_q max_q skip_q max_c method = Some p"
  shows "4 \<le> min_qubits p \<and> min_qubits p \<le> 12 \<and> even (min_qubits p)
    \<and> 4 \<le> max_qubits p \<and> max_qubits p \<le> 12
    \<and> min_qubits p \<le> max_qubits p + 1"
proof -
  define hi where "hi = min (max max_q min_q) 12"
  define lo where "lo = min (max 4 min_q) hi"
  define lo' where "lo' = (if lo mod 2 = 1 then lo + 1 else lo)"
  have unfolded: "validate_params min_q max_q skip_q max_c method =
      (if hi < 4 then None
       else Some \<lparr>min_qubits = lo', max_qubits = hi, skip_qubits = max 1 skip_q,
                   max_circuits = (if method = 2 then 1 else max_c)\<rparr>)"
    unfolding validate_params_def MAX_QUBITS_def Let_def hi_def lo_def lo'_def ..
  from assms have hi4: "4 \<le> hi"
    unfolding unfolded by (cases "hi < 4") simp_all
  with assms have "p = \<lparr>min_qubits = lo', max_qubits = hi, skip_qubits = max 1 skip_q,
                   max_circuits = (if method = 2 then 1 else max_c)\<rparr>"
    unfolding unfolded by (cases "hi < 4") simp_all
  then have p: "min_qubits p = lo'" "max_qubits p = hi"
    by simp_all
  have hi12: "hi \<le> 12" by (simp add: hi_def)
  from hi4 have lo: "4 \<le> lo" "lo \<le> hi" by (simp_all add: lo_def)
  have ev: "even lo'" unfolding lo'_def by presburger
  have lo': "lo \<le> lo'" "lo' \<le> lo + 1" by (simp_all add: lo'_def)
  have "lo' \<le> 12"
  proof (cases "lo mod 2 = 1")
    case True
    with lo hi12 have "lo \<noteq> 12" by auto
    with lo hi12 lo' show ?thesis by simp
  next
    case False
    with lo hi12 show ?thesis by (simp add: lo'_def)
  qed
  with p hi4 hi12 lo lo' ev show ?thesis by simp
qed

text \<open>The qubit counts the loop visits do not depend on \<^verbatim>\<open>skip_qubits\<close>.\<close>

lemma run_sizes_skip_independent:
  "run_sizes min_q max_q skip_q max_c m = run_sizes min_q max_q skip_q' max_c m"
proof -
  define hi where "hi = min (max max_q min_q) 12"
  define lo where "lo = min (max 4 min_q) hi"
  define lo' where "lo' = (if lo mod 2 = 1 then lo + 1 else lo)"
  have "validate_params min_q max_q s max_c m =
      (if hi < 4 then None
       else Some \<lparr>min_qubits = lo', max_qubits = hi, skip_qubits = max 1 s,
                   max_circuits = (if m = 2 then 1 else max_c)\<rparr>)" for s
    unfolding validate_params_def MAX_QUBITS_def Let_def hi_def lo_def lo'_def ..
  then show ?thesis
    by (simp add: run_sizes_def input_sizes_def)
qed

text \<open>
  C8. The claim: after validation \<open>4 \<le> min_qubits \<le> max_qubits \<le> 12\<close> with
  \<open>min_qubits\<close> even, unless the run is aborted. For \<^verbatim>\<open>min_qubits = max_qubits = 5\<close>
  (the command line \<^verbatim>\<open>-n 5\<close>) the run is not aborted, the clamped lower bound 5 is
  raised to 6 by the parity adjustment after the upper bound was fixed at 5, and the loop
  visits no qubit count at all.
\<close>

theorem validate_params_odd_equal_bounds:
  "validate_params 5 5 1 3 1
     = Some \<lparr>min_qubits = 6, max_qubits = 5, skip_qubits = 1, max_circuits = 3\<rparr>
   \<and> run_sizes 5 5 1 3 1 = Some []"
  by (simp add: validate_params_def run_sizes_def input_sizes_def MAX_QUBITS_def
      range_step2.simps [of 6 6])

subsection \<open>The Hartree-Fock circuit\<close>

lemma for_each_gate1:
  assumes "r < length (heap st)"
    and "\<forall>i \<in> set xs. 0 \<le> f i \<and> f i < int (num_qubits (heap st ! r))"
  shows "for_each xs (\<lambda>i. mutate r (gate1 g (f i))) st =
           (Inr (), st\<lparr>heap := (heap st)[r := (heap st ! r)
              \<lparr>data := data (heap st ! r) @ map (\<lambda>i. CircuitInstruction g [nat (f i)] []) xs\<rparr>]\<rparr>)"
  using assms
proof (induction xs arbitrary: st)
  case Nil
  then show ?case by simp
next
  case (Cons x xs)
  let ?c = "heap st ! r"
  let ?c1 = "?c\<lparr>data := data ?c @ [CircuitInstruction g [nat (f x)] []]\<rparr>"
  let ?st1 = "st\<lparr>heap := (heap st)[r := ?c1]\<rparr>"
  from Cons.prems have step: "mutate r (gate1 g (f x)) st = (Inr (), ?st1)"
    by (simp add: mutate_def gate1_def resolve_qubit_def)
  from Cons.prems have "r < length (heap ?st1)"
    and "\<forall>i \<in> set xs. 0 \<le> f i \<and> f i < int (num_qubits (heap ?st1 ! r))"
    by simp_all
  from Cons.IH [OF this] step Cons.prems(1) show ?case
    by simp
qed


lemma py_range_0: "py_range 0 n = [0..n - 1]"
  by (simp add: py_range_def)

lemma HartreeFock_result:
  assumes "0 \<le> norb" and "2 * na \<le> norb" and "2 * nb \<le> norb"
  shows "\<exists>st' alpha beta.
           HartreeFock norb na nb st = (Inr (length (heap st)), st')
         \<and> heap st' = heap st @ [\<lparr>name = ''Hf'', num_qubits = nat norb, num_clbits = 0,
               data = map (\<lambda>q. CircuitInstruction XGate [q] []) (alpha @ beta),
               metadata = Map.empty\<rparr>]
         \<and> alpha = map nat [0..na - 1]
         \<and> beta = map (\<lambda>ib. nat (ib + norb div 2)) [0..nb - 1]
         \<and> distinct (alpha @ beta)
         \<and> set alpha = {q. int q < na}
         \<and> set beta = {q. norb div 2 \<le> int q \<and> int q < norb div 2 + nb}"
proof -
  define r where "r = length (heap st)"
  define c0 where "c0 = \<lparr>name = ''Hf'', num_qubits = nat norb, num_clbits = 0, data = [],
                 metadata = Map.empty\<rparr>"
  define st1 where "st1 = st\<lparr>heap := heap st @ [c0]\<rparr>"
  define alpha where "alpha = map nat [0..na - 1]"
  define beta where "beta = map (\<lambda>ib. nat (ib + norb div 2)) [0..nb - 1]"
  define X where "X = (\<lambda>q. CircuitInstruction XGate [q] [])"
  define c1 where "c1 = c0\<lparr>data := map X alpha\<rparr>"
  define st2 where "st2 = st\<lparr>heap := heap st @ [c1]\<rparr>"
  define c2 where "c2 = c0\<lparr>data := map X (alpha @ beta)\<rparr>"
  define st3 where "st3 = st\<lparr>heap := heap st @ [c2]\<rparr>"
  from assms have QC: "QuantumCircuit norb ''Hf'' = Inr c0"
    by (simp add: QuantumCircuit_def c0_def)
  have al: "alloc c0 st = (r, st1)"
    by (simp add: alloc_def r_def st1_def)
  have r1: "r < length (heap st1)" "heap st1 ! r = c0"
    by (simp_all add: r_def st1_def)
  have in1: "\<forall>i \<in> set [0..na - 1]. 0 \<le> i \<and> i < int (num_qubits (heap st1 ! r))"
    using assms by (auto simp add: r1 c0_def)
  have loop1: "for_each (py_range 0 na) (\<lambda>ia. mutate r (gate1 XGate ia)) st1 = (Inr (), st2)"
    unfolding py_range_0 for_each_gate1 [OF r1(1) in1]
    by (simp add: r1 st1_def st2_def c1_def alpha_def X_def r_def c0_def comp_def)
  have r2: "r < length (heap st2)" "heap st2 ! r = c1"
    by (simp_all add: r_def st2_def)
  have half: "int_half norb = norb div 2"
    using assms by (simp add: int_half_def)
  have in2: "\<forall>i \<in> set [0..nb - 1]. 0 \<le> i + norb div 2
      \<and> i + norb div 2 < int (num_qubits (heap st2 ! r))"
    using assms by (auto simp add: r2 c1_def c0_def)
  have loop2: "for_each (py_range 0 nb) (\<lambda>ib. mutate r (gate1 XGate (ib + int_half norb))) st2
      = (Inr (), st3)"
    unfolding py_range_0 half for_each_gate1 [OF r2(1) in2]
    by (simp add: r2 st2_def st3_def c1_def c2_def beta_def X_def r_def c0_def comp_def)
  define st4 where "st4 = (if Hf_saved st3 = None \<or> norb \<le> 4
                       then (if norb < 7 then st3\<lparr>Hf_saved := Some r\<rparr> else st3)
                       else st3)"
  have run: "HartreeFock norb na nb st = (Inr r, st4)"
    by (simp add: HartreeFock_def QC al loop1 loop2 st4_def)
  have h4: "heap st4 = heap st @ [c2]"
    by (simp add: st4_def st3_def)
  have sa: "set alpha = {q. int q < na}"
  proof (rule set_eqI)
    fix q
    have "q \<in> nat ` {0..na - 1} \<longleftrightarrow> int q < na"
    proof
      assume "q \<in> nat ` {0..na - 1}"
      then show "int q < na" by auto
    next
      assume "int q < na"
      then have "int q \<in> {0..na - 1}" by simp
      then have "nat (int q) \<in> nat ` {0..na - 1}" by (rule imageI)
      then show "q \<in> nat ` {0..na - 1}" by simp
    qed
    then show "q \<in> set alpha \<longleftrightarrow> q \<in> {q. int q < na}"
      by (simp add: alpha_def)
  qed
  have sb: "set beta = {q. norb div 2 \<le> int q \<and> int q < norb div 2 + nb}"
  proof (rule set_eqI)
    fix q
    let ?f = "\<lambda>ib. nat (ib + norb div 2)"
    have "q \<in> ?f ` {0..nb - 1} \<longleftrightarrow> norb div 2 \<le> int q \<and> int q < norb div 2 + nb"
    proof
      assume "q \<in> ?f ` {0..nb - 1}"
      then show "norb div 2 \<le> int q \<and> int q < norb div 2 + nb"
        using assms by auto
    next
      assume q: "norb div 2 \<le> int q \<and> int q < norb div 2 + nb"
      then have "int q - norb div 2 \<in> {0..nb - 1}" by simp
      then have "?f (int q - norb div 2) \<in> ?f ` {0..nb - 1}" by (rule imageI)
      then show "q \<in> ?f ` {0..nb - 1}" by simp
    qed
    then show "q \<in> set beta \<longleftrightarrow> q \<in> {q. norb div 2 \<le> int q \<and> int q < norb div 2 + nb}"
      by (simp add: beta_def)
  qed
  have da: "distinct alpha"
    unfolding alpha_def by (rule distinct_map [THEN iffD2]) (auto simp add: inj_on_def)
  have db: "distinct beta"
    unfolding beta_def using assms
    by (intro distinct_map [THEN iffD2] conjI) (auto simp add: inj_on_def)
  have "set alpha \<inter> set beta = {}"
    unfolding sa sb using assms by auto
  with da db have dist: "distinct (alpha @ beta)" by simp
  have c2: "c2 = \<lparr>name = ''Hf'', num_qubits = nat norb, num_clbits = 0,
               data = map (\<lambda>q. CircuitInstruction XGate [q] []) (alpha @ beta),
               metadata = Map.empty\<rparr>"
    by (simp add: c2_def c0_def X_def)
  show ?thesis
    apply (rule exI [of _ st4], rule exI [of _ alpha], rule exI [of _ beta])
    using run h4 sa sb dist
    by (simp add: r_def c2 alpha_def beta_def)
qed


text \<open>
  C6. For a qubit count \<open>norb\<close> and electron counts with \<open>na \<le> norb / 2\<close> and
  \<open>nb \<le> norb / 2\<close>, \<^verbatim>\<open>HartreeFock\<close> returns a new circuit on \<open>norb\<close> qubits whose
  instructions are X gates and nothing else: one on each of the qubits \<open>0, \<dots>, na - 1\<close>
  (the list \<open>alpha\<close>), then one on each of the qubits
  \<open>norb div 2, \<dots>, norb div 2 + nb - 1\<close> (the list \<open>beta\<close>); no qubit occurs twice. The
  circuits that existed before the call are unchanged.
\<close>

theorem HartreeFock_circuit:
  assumes "0 \<le> norb" and "2 * na \<le> norb" and "2 * nb \<le> norb"
  shows "\<exists>st' alpha beta.
           HartreeFock norb na nb st = (Inr (length (heap st)), st')
         \<and> length (heap st') = Suc (length (heap st))
         \<and> take (length (heap st)) (heap st') = heap st
         \<and> num_qubits (heap st' ! length (heap st)) = nat norb
         \<and> data (heap st' ! length (heap st))
             = map (\<lambda>q. CircuitInstruction XGate [q] []) (alpha @ beta)
         \<and> alpha = map nat [0..na - 1]
         \<and> beta = map (\<lambda>ib. nat (ib + norb div 2)) [0..nb - 1]
         \<and> distinct (alpha @ beta)
         \<and> set alpha = {q. int q < na}
         \<and> set beta = {q. norb div 2 \<le> int q \<and> int q < norb div 2 + nb}"
proof -
  from HartreeFock_result [OF assms, of st] obtain st' alpha beta where
    r: "HartreeFock norb na nb st = (Inr (length (heap st)), st')"
    and h: "heap st' = heap st @ [\<lparr>name = ''Hf'', num_qubits = nat norb, num_clbits = 0,
               data = map (\<lambda>q. CircuitInstruction XGate [q] []) (alpha @ beta),
               metadata = Map.empty\<rparr>]"
    and ab: "alpha = map nat [0..na - 1]" "beta = map (\<lambda>ib. nat (ib + norb div 2)) [0..nb - 1]"
      "distinct (alpha @ beta)" "set alpha = {q. int q < na}"
      "set beta = {q. norb div 2 \<le> int q \<and> int q < norb div 2 + nb}"
    by blast
  from h have "length (heap st') = Suc (length (heap st))"
    and "take (length (heap st)) (heap st') = heap st"
    and "num_qubits (heap st' ! length (heap st)) = nat norb"
    and "data (heap st' ! length (heap st))
           = map (\<lambda>q. CircuitInstruction XGate [q] []) (alpha @ beta)"
    by simp_all
  with r ab show ?thesis by blast
qed

theorem HartreeFock_circuit_witness:
  "(0::int) \<le> 4 \<and> 2 * 1 \<le> (4::int)
   \<and> (\<exists>st'. HartreeFock 4 1 1 \<lparr>heap = [], QC_saved = None, Hf_saved = None,
                CO_saved = None, normalization = None\<rparr> = (Inr 0, st')
         \<and> data (heap st' ! 0)
             = [CircuitInstruction XGate [0] [], CircuitInstruction XGate [2] []])"
  using HartreeFock_circuit [of 4 1 1 "\<lparr>heap = [], QC_saved = None, Hf_saved = None,
      CO_saved = None, normalization = None\<rparr>"]
  by auto

subsection \<open>Measurement bases\<close>

lemma mutate_gate1:
  assumes "r < length (heap st)" and "0 \<le> t" and "t < int (num_qubits (heap st ! r))"
  shows "mutate r (gate1 g t) st =
           (Inr (), st\<lparr>heap := (heap st)[r := (heap st ! r)
              \<lparr>data := data (heap st ! r) @ [CircuitInstruction g [nat t] []]\<rparr>]\<rparr>)"
  using assms by (simp add: mutate_def gate1_def resolve_qubit_def)

lemma mutate_frame:
  assumes "mutate r f st = (res, st')"
  shows "length (heap st') = length (heap st) \<and> (\<forall>a. a \<noteq> r \<longrightarrow> heap st' ! a = heap st ! a)"
  using assms by (auto simp add: mutate_def split: sum.splits)

lemma basis_rotation_frame:
  assumes "basis_rotation r nqubit xs d st = (res, st')"
  shows "length (heap st') = length (heap st) \<and> (\<forall>a. a \<noteq> r \<longrightarrow> heap st' ! a = heap st ! a)"
  using assms
proof (induction xs arbitrary: d st)
  case Nil
  then show ?case by simp
next
  case (Cons ip xs)
  obtain i p where ip: "ip = (i, p)" by (cases ip)
  let ?t = "nqubit - int i - 1"
  show ?case
  proof (cases "p = CHR ''X''")
    case True
    obtain r1 s1 where m1: "mutate r (gate1 HGate ?t) st = (r1, s1)" by fastforce
    note f1 = mutate_frame [OF m1]
    show ?thesis
    proof (cases r1)
      case (Inl e)
      with Cons.prems ip True m1 f1 show ?thesis by simp
    next
      case (Inr u)
      with Cons.prems ip True m1 have "basis_rotation r nqubit xs False s1 = (res, st')"
        by simp
      from Cons.IH [OF this] f1 show ?thesis by simp
    qed
  next
    case notX: False
    show ?thesis
    proof (cases "p = CHR ''Y''")
      case True
      obtain r1 s1 where m1: "mutate r (gate1 SdgGate ?t) st = (r1, s1)" by fastforce
      note f1 = mutate_frame [OF m1]
      show ?thesis
      proof (cases r1)
        case (Inl e)
        with Cons.prems ip True notX m1 f1 show ?thesis by simp
      next
        case ok1: (Inr u)
        obtain r2 s2 where m2: "mutate r (gate1 HGate ?t) s1 = (r2, s2)" by fastforce
        note f2 = mutate_frame [OF m2]
        show ?thesis
        proof (cases r2)
          case (Inl e)
          with Cons.prems ip True notX m1 ok1 m2 f1 f2 show ?thesis by simp
        next
          case (Inr u2)
          with Cons.prems ip True notX m1 ok1 m2
          have "basis_rotation r nqubit xs False s2 = (res, st')"
            by simp
          from Cons.IH [OF this] f1 f2 show ?thesis by simp
        qed
      qed
    next
      case False
      with Cons.prems ip notX have "basis_rotation r nqubit xs d st = (res, st')"
        by simp
      from Cons.IH [OF this] show ?thesis .
    qed
  qed
qed

lemma basis_gates_pair:
  "basis_gates nqubit (i, p) =
     (if p = CHR ''X'' then [CircuitInstruction HGate [nat (nqubit - int i - 1)] []]
      else if p = CHR ''Y'' then
        [CircuitInstruction SdgGate [nat (nqubit - int i - 1)] [],
         CircuitInstruction HGate [nat (nqubit - int i - 1)] []]
      else [])"
  by (simp add: basis_gates_def Let_def)

lemma basis_rotation_gates:
  assumes "r < length (heap st)"
    and "\<forall>ip \<in> set xs. snd ip = CHR ''X'' \<or> snd ip = CHR ''Y'' \<longrightarrow>
           0 \<le> nqubit - int (fst ip) - 1
           \<and> nqubit - int (fst ip) - 1 < int (num_qubits (heap st ! r))"
  shows "basis_rotation r nqubit xs d st =
           (Inr (d \<and> CHR ''X'' \<notin> snd ` set xs \<and> CHR ''Y'' \<notin> snd ` set xs),
            st\<lparr>heap := (heap st)[r := (heap st ! r)
              \<lparr>data := data (heap st ! r) @ concat (map (basis_gates nqubit) xs)\<rparr>]\<rparr>)"
  using assms
proof (induction xs arbitrary: d st)
  case Nil
  then show ?case by simp
next
  case (Cons ip xs)
  obtain i p where ip: "ip = (i, p)" by (cases ip)
  let ?t = "nqubit - int i - 1"
  let ?c = "heap st ! r"
  show ?case
  proof (cases "p = CHR ''X''")
    case True
    let ?c1 = "?c\<lparr>data := data ?c @ [CircuitInstruction HGate [nat ?t] []]\<rparr>"
    let ?s1 = "st\<lparr>heap := (heap st)[r := ?c1]\<rparr>"
    from Cons.prems ip True have t: "0 \<le> ?t" "?t < int (num_qubits ?c)" by simp_all
    have m1: "mutate r (gate1 HGate ?t) st = (Inr (), ?s1)"
      by (rule mutate_gate1 [OF Cons.prems(1) t])
    from Cons.prems have "r < length (heap ?s1)"
      and "\<forall>ip \<in> set xs. snd ip = CHR ''X'' \<or> snd ip = CHR ''Y'' \<longrightarrow>
           0 \<le> nqubit - int (fst ip) - 1
           \<and> nqubit - int (fst ip) - 1 < int (num_qubits (heap ?s1 ! r))"
      by simp_all
    from Cons.IH [OF this, of False] m1 ip True Cons.prems(1) show ?thesis
      by (simp add: basis_gates_pair)
  next
    case notX: False
    show ?thesis
    proof (cases "p = CHR ''Y''")
      case True
      let ?c1 = "?c\<lparr>data := data ?c @ [CircuitInstruction SdgGate [nat ?t] []]\<rparr>"
      let ?s1 = "st\<lparr>heap := (heap st)[r := ?c1]\<rparr>"
      let ?c2 = "?c\<lparr>data := data ?c @ [CircuitInstruction SdgGate [nat ?t] [],
                                         CircuitInstruction HGate [nat ?t] []]\<rparr>"
      let ?s2 = "st\<lparr>heap := (heap st)[r := ?c2]\<rparr>"
      from Cons.prems ip True have t: "0 \<le> ?t" "?t < int (num_qubits ?c)" by simp_all
      have m1: "mutate r (gate1 SdgGate ?t) st = (Inr (), ?s1)"
        by (rule mutate_gate1 [OF Cons.prems(1) t])
      from Cons.prems(1) t have "r < length (heap ?s1)" "0 \<le> ?t"
        "?t < int (num_qubits (heap ?s1 ! r))"
        by simp_all
      from mutate_gate1 [OF this, of HGate] Cons.prems(1)
      have m2: "mutate r (gate1 HGate ?t) ?s1 = (Inr (), ?s2)"
        by simp
      from Cons.prems have "r < length (heap ?s2)"
        and "\<forall>ip \<in> set xs. snd ip = CHR ''X'' \<or> snd ip = CHR ''Y'' \<longrightarrow>
           0 \<le> nqubit - int (fst ip) - 1
           \<and> nqubit - int (fst ip) - 1 < int (num_qubits (heap ?s2 ! r))"
        by simp_all
      from Cons.IH [OF this, of False] m1 m2 ip True notX Cons.prems(1) show ?thesis
        by (simp add: basis_gates_pair)
    next
      case False
      from Cons.prems have "r < length (heap st)"
        and "\<forall>ip \<in> set xs. snd ip = CHR ''X'' \<or> snd ip = CHR ''Y'' \<longrightarrow>
           0 \<le> nqubit - int (fst ip) - 1
           \<and> nqubit - int (fst ip) - 1 < int (num_qubits (heap st ! r))"
        by simp_all
      from Cons.IH [OF this, of d] ip False notX show ?thesis
        by (simp add: basis_gates_pair)
    qed
  qed
qed

text \<open>
  C5, as amended. For a circuit \<open>qc\<close>, a Pauli term with the string \<open>PauliString\<close> and a
  qubit count \<open>nqubit\<close> such that \<open>nqubit - i - 1\<close> is a qubit of the circuit, from \<open>0\<close>
  to its number of qubits less one, at every position \<open>i\<close> that holds \<open>X\<close> or \<open>Y\<close>:
  \<^verbatim>\<open>ExpectationCircuit\<close> returns a new circuit whose instructions are those of \<open>qc\<close>,
  then for each position in turn H on qubit \<open>nqubit - i - 1\<close> for \<open>X\<close>, Sdg then H on it
  for \<open>Y\<close> and nothing for any other character, then the barrier and the measurement of
  every qubit; the flag returned is true exactly when the string holds neither \<open>X\<close> nor
  \<open>Y\<close>.
\<close>

theorem ExpectationCircuit_basis:
  assumes "qc < length (heap st)"
    and "to_list pauli = (PauliString, coeff) # others"
    and "\<forall>i < length PauliString.
           PauliString ! i = CHR ''X'' \<or> PauliString ! i = CHR ''Y'' \<longrightarrow>
           0 \<le> nqubit - int i - 1 \<and> nqubit - int i - 1 < int (num_qubits (heap st ! qc))"
  shows "\<exists>st'. ExpectationCircuit str_float qc pauli nqubit st =
             (Inr (length (heap st),
                   CHR ''X'' \<notin> set PauliString \<and> CHR ''Y'' \<notin> set PauliString), st')
         \<and> data (heap st' ! length (heap st)) =
             data (heap st ! qc)
             @ concat (map (basis_gates nqubit) (enumerate 0 PauliString))
             @ measurements (heap st ! qc)
         \<and> num_qubits (heap st' ! length (heap st)) = num_qubits (heap st ! qc)
         \<and> name (heap st' ! length (heap st)) = PauliString @ '' '' @ str_float coeff"
proof -
  define raw where "raw = length (heap st)"
  define c where "c = heap st ! qc"
  define st1 where "st1 = st\<lparr>heap := heap st @ [c]\<rparr>"
  define xs where "xs = enumerate 0 PauliString"
  define c2 where "c2 = c\<lparr>data := data c @ concat (map (basis_gates nqubit) xs)\<rparr>"
  define st2 where "st2 = st\<lparr>heap := heap st @ [c2]\<rparr>"
  define c3 where "c3 = measure_all c2"
  define st3 where "st3 = st\<lparr>heap := heap st @ [c3]\<rparr>"
  define c4 where "c4 = c3\<lparr>name := PauliString @ '' '' @ str_float coeff\<rparr>"
  define st4 where "st4 = st\<lparr>heap := heap st @ [c4]\<rparr>"
  define st5 where "st5 = (if QC_saved st4 = None \<or> nqubit \<le> 4
                            then (if nqubit < 7 then st4\<lparr>QC_saved := Some raw\<rparr> else st4)
                            else st4)"
  have cp: "copy qc st = (raw, st1)"
    by (simp add: copy_def alloc_def raw_def st1_def c_def)
  have r1: "raw < length (heap st1)" and h1: "heap st1 ! raw = c"
    by (simp_all add: raw_def st1_def)
  have tg: "\<forall>ip \<in> set xs. snd ip = CHR ''X'' \<or> snd ip = CHR ''Y'' \<longrightarrow>
           0 \<le> nqubit - int (fst ip) - 1
           \<and> nqubit - int (fst ip) - 1 < int (num_qubits (heap st1 ! raw))"
    using assms(3) by (auto simp add: xs_def h1 c_def in_set_enumerate_eq)
  have snd_xs: "snd ` set xs = set PauliString"
    by (simp add: xs_def flip: set_map)
  have br: "basis_rotation raw nqubit xs True st1 =
      (Inr (CHR ''X'' \<notin> set PauliString \<and> CHR ''Y'' \<notin> set PauliString), st2)"
    unfolding basis_rotation_gates [OF r1 tg] snd_xs
    by (simp add: h1 st1_def st2_def c2_def raw_def)
  have m3: "mutate raw (\<lambda>c. Inr (measure_all c)) st2 = (Inr (), st3)"
    by (simp add: mutate_def st2_def st3_def raw_def c3_def)
  have m4: "mutate raw (\<lambda>c. Inr (c\<lparr>name := PauliString @ '' '' @ str_float coeff\<rparr>)) st3
      = (Inr (), st4)"
    by (simp add: mutate_def st3_def st4_def raw_def c4_def)
  have run: "ExpectationCircuit str_float qc pauli nqubit st =
      (Inr (raw, CHR ''X'' \<notin> set PauliString \<and> CHR ''Y'' \<notin> set PauliString), st5)"
    using m4
    by (simp add: ExpectationCircuit_def cp assms(2) br [unfolded xs_def] m3 st5_def)
  have h5: "heap st5 ! raw = c4"
    by (simp add: st5_def st4_def raw_def)
  have "data c4 = data c @ concat (map (basis_gates nqubit) xs) @ measurements c"
    by (simp add: c4_def c3_def c2_def measure_all_def measurements_def)
  moreover have "num_qubits c4 = num_qubits c"
    by (simp add: c4_def c3_def c2_def measure_all_def)
  moreover have "name c4 = PauliString @ '' '' @ str_float coeff"
    by (simp add: c4_def)
  ultimately show ?thesis
    using run h5 unfolding raw_def c_def xs_def by blast
qed

theorem ExpectationCircuit_basis_witness:
  "\<exists>st'. ExpectationCircuit (\<lambda>x. ''1.0'') 0 (SparsePauliOp [(''XY'', 1)]) 2
            \<lparr>heap = [\<lparr>name = ''qc'', num_qubits = 2, num_clbits = 0,
                       data = [CircuitInstruction XGate [0] []], metadata = Map.empty\<rparr>],
             QC_saved = None, Hf_saved = None, CO_saved = None, normalization = None\<rparr>
          = (Inr (1, False), st')
      \<and> data (heap st' ! 1) =
          [CircuitInstruction XGate [0] [],
           CircuitInstruction HGate [1] [],
           CircuitInstruction SdgGate [0] [], CircuitInstruction HGate [0] [],
           CircuitInstruction Barrier [0, 1] [],
           CircuitInstruction Measure [0] [0], CircuitInstruction Measure [1] [1]]"
  using ExpectationCircuit_basis [of 0
      "\<lparr>heap = [\<lparr>name = ''qc'', num_qubits = 2, num_clbits = 0,
                 data = [CircuitInstruction XGate [0] []], metadata = Map.empty\<rparr>],
        QC_saved = None, Hf_saved = None, CO_saved = None, normalization = None\<rparr>"
      "SparsePauliOp [(''XY'', 1)]" "''XY''" 1 "[]" 2 "\<lambda>x. ''1.0''"]
  by (auto simp add: basis_gates_pair measurements_def enumerate_eq_zip upt_rec less_Suc_eq)

text \<open>
  C5 as the specification states it, for every circuit, Pauli term and \<open>nqubit\<close>, fails
  where \<open>nqubit - i - 1\<close> is not a qubit of the circuit: with \<open>nqubit = 5\<close> on a circuit
  of two qubits the string \<open>X\<close> asks for H on qubit 4, the call raises and returns neither
  a circuit nor a flag.
\<close>

theorem ExpectationCircuit_qubit_out_of_range:
  "fst (ExpectationCircuit print_half 0 (SparsePauliOp [(''X'', 1)]) 5 two_qubit_state)
     = Inl CircuitError
   \<and> num_qubits (heap two_qubit_state ! 0) = 2"
  by (simp add: ExpectationCircuit_def copy_def alloc_def two_qubit_state_def mutate_def
      gate1_def resolve_qubit_def enumerate_eq_zip)

text \<open>
  C9. \<^verbatim>\<open>ExpectationCircuit\<close> leaves the circuit \<open>qc\<close> it is given as it was: whatever the
  call returns or raises, the object behind the reference \<open>qc\<close> (its instructions and its
  name among the rest) is the same after the call. The gates, the measurements and the
  new name go to the copy, a new object.
\<close>

theorem ExpectationCircuit_frame:
  assumes "qc < length (heap st)"
  shows "heap (snd (ExpectationCircuit str_float qc pauli nqubit st)) ! qc = heap st ! qc
     \<and> data (heap (snd (ExpectationCircuit str_float qc pauli nqubit st)) ! qc)
         = data (heap st ! qc)
     \<and> name (heap (snd (ExpectationCircuit str_float qc pauli nqubit st)) ! qc)
         = name (heap st ! qc)"
proof -
  define raw where "raw = length (heap st)"
  define st1 where "st1 = st\<lparr>heap := heap st @ [heap st ! qc]\<rparr>"
  have cp: "copy qc st = (raw, st1)"
    by (simp add: copy_def alloc_def raw_def st1_def)
  from assms have ne: "qc \<noteq> raw" and h1: "heap st1 ! qc = heap st ! qc"
    by (simp_all add: raw_def st1_def nth_append)
  have same: "heap (snd (ExpectationCircuit str_float qc pauli nqubit st)) ! qc = heap st ! qc"
  proof (cases "to_list pauli")
    case Nil
    then show ?thesis
      by (simp add: ExpectationCircuit_def cp h1)
  next
    case (Cons t ts)
    obtain PauliString coeff where t: "t = (PauliString, coeff)" by (cases t)
    obtain r2 st2 where
      br: "basis_rotation raw nqubit (enumerate 0 PauliString) True st1 = (r2, st2)"
      by fastforce
    from basis_rotation_frame [OF br] ne h1 have h2: "heap st2 ! qc = heap st ! qc"
      by simp
    show ?thesis
    proof (cases r2)
      case (Inl e)
      with Cons t br h2 show ?thesis
        by (simp add: ExpectationCircuit_def cp)
    next
      case ok2: (Inr is_diag)
      obtain r3 st3 where m3: "mutate raw (\<lambda>c. Inr (measure_all c)) st2 = (r3, st3)"
        by fastforce
      from mutate_frame [OF m3] ne h2 have h3: "heap st3 ! qc = heap st ! qc"
        by simp
      show ?thesis
      proof (cases r3)
        case (Inl e)
        with Cons t br ok2 m3 h3 show ?thesis
          by (simp add: ExpectationCircuit_def cp)
      next
        case ok3: (Inr u)
        obtain r4 st4 where
          m4: "mutate raw (\<lambda>c. Inr (c\<lparr>name := PauliString @ '' '' @ str_float coeff\<rparr>)) st3
                = (r4, st4)"
          by fastforce
        from mutate_frame [OF m4] ne h3 have h4: "heap st4 ! qc = heap st ! qc"
          by simp
        show ?thesis
        proof (cases r4)
          case (Inl e)
          with Cons t br ok2 m3 ok3 m4 h4 show ?thesis
            by (simp add: ExpectationCircuit_def cp)
        next
          case (Inr u4)
          with Cons t br ok2 m3 ok3 m4 h4 show ?thesis
            by (simp add: ExpectationCircuit_def cp)
        qed
      qed
    qed
  qed
  then show ?thesis by simp
qed

theorem ExpectationCircuit_frame_witness:
  "data (heap (snd (ExpectationCircuit (\<lambda>x. ''1.0'') 0 (SparsePauliOp [(''XY'', 1)]) 2
            \<lparr>heap = [\<lparr>name = ''qc'', num_qubits = 2, num_clbits = 0,
                       data = [CircuitInstruction XGate [0] []], metadata = Map.empty\<rparr>],
             QC_saved = None, Hf_saved = None, CO_saved = None, normalization = None\<rparr>)) ! 0)
     = [CircuitInstruction XGate [0] []]
   \<and> name (heap (snd (ExpectationCircuit (\<lambda>x. ''1.0'') 0 (SparsePauliOp [(''XY'', 1)]) 2
            \<lparr>heap = [\<lparr>name = ''qc'', num_qubits = 2, num_clbits = 0,
                       data = [CircuitInstruction XGate [0] []], metadata = Map.empty\<rparr>],
             QC_saved = None, Hf_saved = None, CO_saved = None, normalization = None\<rparr>)) ! 0)
     = ''qc''"
  using ExpectationCircuit_frame [of 0
      "\<lparr>heap = [\<lparr>name = ''qc'', num_qubits = 2, num_clbits = 0,
                 data = [CircuitInstruction XGate [0] []], metadata = Map.empty\<rparr>],
        QC_saved = None, Hf_saved = None, CO_saved = None, normalization = None\<rparr>"
      "\<lambda>x. ''1.0''" "SparsePauliOp [(''XY'', 1)]" 2]
  by simp

subsection \<open>Rounding\<close>

lemma round_half_even_of_int: "round_half_even (of_int m) = m"
  by (simp add: round_half_even_def)

lemma round_double_0: "round_double 0 = 0"
  by (simp add: round_double_def)

text \<open>A number that is a multiple of the unit in its last place is a float and is not rounded.\<close>

lemma round_double_exact:
  assumes "x / 2 powr (of_int (max \<lfloor>log 2 \<bar>x\<bar>\<rfloor> (- 1022)) - 52) = of_int m"
  shows "round_double x = x"
proof (cases "x = 0")
  case True
  then show ?thesis by (simp add: round_double_def)
next
  case False
  let ?u = "2 powr (of_int (max \<lfloor>log 2 \<bar>x\<bar>\<rfloor> (- 1022)) - 52)"
  have u: "?u \<noteq> 0" by simp
  from assms have "x = ?u * of_int m"
    using u by (simp add: field_simps)
  moreover have "round_double x = ?u * of_int (round_half_even (x / ?u))"
    using False by (simp add: round_double_def)
  ultimately show ?thesis
    using assms by (simp add: round_half_even_of_int)
qed

lemma floor_log2:
  assumes "2 powr of_int e \<le> x" and "x < 2 powr of_int (e + 1)"
  shows "\<lfloor>log 2 x\<rfloor> = e"
proof -
  have "(0::real) < 2 powr of_int e" by simp
  from this assms(1) have pos: "0 < x" by (rule less_le_trans)
  have "of_int e \<le> log 2 x"
    using assms(1) pos by (simp add: le_log_iff)
  moreover have "log 2 x < of_int e + 1"
    using assms(2) pos by (simp add: log_less_iff)
  ultimately show ?thesis
    by (simp add: floor_eq_iff)
qed

lemma round_double_quarter: "round_double (1 / 4) = 1 / 4"
proof (rule round_double_exact [where m = "2 ^ 52"])
  have "\<lfloor>log 2 \<bar>1 / 4 :: real\<bar>\<rfloor> = - 2"
    by (rule floor_log2) (simp_all add: powr_minus_divide)
  then show "(1 / 4 :: real) / 2 powr (of_int (max \<lfloor>log 2 \<bar>1 / 4 :: real\<bar>\<rfloor> (- 1022)) - 52)
      = of_int (2 ^ 52)"
    by (simp add: powr_minus_divide)
qed

lemma round_double_minus_quarter: "round_double (- (1 / 4)) = - (1 / 4)"
proof (rule round_double_exact [where m = "- (2 ^ 52)"])
  have "\<lfloor>log 2 \<bar>- (1 / 4) :: real\<bar>\<rfloor> = - 2"
    by (rule floor_log2) (simp_all add: powr_minus_divide)
  then show "(- (1 / 4) :: real)
        / 2 powr (of_int (max \<lfloor>log 2 \<bar>- (1 / 4) :: real\<bar>\<rfloor> (- 1022)) - 52)
      = of_int (- (2 ^ 52))"
    by (simp add: powr_minus_divide)
qed

lemma round_double_eighth: "round_double (1 / 8) = 1 / 8"
proof (rule round_double_exact [where m = "2 ^ 52"])
  have "\<lfloor>log 2 \<bar>1 / 8 :: real\<bar>\<rfloor> = - 3"
    by (rule floor_log2) (simp_all add: powr_minus_divide)
  then show "(1 / 8 :: real) / 2 powr (of_int (max \<lfloor>log 2 \<bar>1 / 8 :: real\<bar>\<rfloor> (- 1022)) - 52)
      = of_int (2 ^ 52)"
    by (simp add: powr_minus_divide)
qed

text \<open>
  The difference of the floats \<^verbatim>\<open>0.0999\<close> and \<^verbatim>\<open>0.1\<close> is a float, and its magnitude is
  above the float \<^verbatim>\<open>1e-4\<close>, by \<open>211 / 2 ^ 66\<close>.
\<close>

lemma round_double_close:
  "round_double (- (7205759403793 / 72057594037927936))
     = - (7205759403793 / 72057594037927936)"
proof (rule round_double_exact [where m = "- 7378697629484032"])
  have "\<lfloor>log 2 \<bar>- (7205759403793 / 72057594037927936) :: real\<bar>\<rfloor> = - 14"
    by (rule floor_log2) (simp_all add: powr_minus_divide)
  then show "(- (7205759403793 / 72057594037927936) :: real)
        / 2 powr (of_int (max \<lfloor>log 2 \<bar>- (7205759403793 / 72057594037927936) :: real\<bar>\<rfloor>
                           (- 1022)) - 52)
      = of_int (- 7378697629484032)"
    by (simp add: powr_minus_divide)
qed

subsection \<open>Grouping the excitations\<close>

lemma excitation_loop_groups:
  assumes "cur \<noteq> []" and "c \<le> 10000" and "\<forall>t \<in> set (butlast xs). snd t \<le> 10000"
  shows "(case excitation_loop xs c cur pl of
            Inl e \<Rightarrow> Inl e
          | Inr (cur_coeff, cur_list, pauli_list) \<Rightarrow>
              (case from_list cur_list of
                 Inl e \<Rightarrow> Inl e
               | Inr P \<Rightarrow> Inr (pauli_list @ [P])))
         = Inr (pl @ SparsePauliOp (cur @ takeWhile (near c) xs)
                  # map SparsePauliOp (coefficient_groups (dropWhile (near c) xs)))"
  using assms
proof (induction xs arbitrary: c cur pl)
  case Nil
  then show ?case by (simp add: from_list_def)
next
  case (Cons t ts)
  obtain ext v where t: "t = (ext, v)" by (cases t)
  have nt: "near c t \<longleftrightarrow> \<not> \<bar>round_double (\<bar>v\<bar> - \<bar>c\<bar>)\<bar> > double_1e_4"
    by (simp add: near_def t)
  show ?case
  proof (cases "ts = []")
    case True
    with Cons.prems(1,2) nt show ?thesis
      by (cases "near c t") (simp_all add: t from_list_def)
  next
    case more: False
    with Cons.prems have v: "v \<le> 10000" and ts: "\<forall>t \<in> set (butlast ts). snd t \<le> 10000"
      by (simp_all add: t)
    show ?thesis
    proof (cases "near c t")
      case True
      have "cur @ [t] \<noteq> []" by simp
      from Cons.IH [OF this Cons.prems(2) ts, of pl] True Cons.prems(2) nt show ?thesis
        by (simp add: t)
    next
      case False
      have "[t] \<noteq> []" by simp
      from Cons.IH [OF this v ts, of "pl @ [SparsePauliOp cur]"] False Cons.prems(1,2) nt
      show ?thesis
        by (simp add: t from_list_def)
    qed
  qed
qed

lemma concat_coefficient_groups: "concat (coefficient_groups ts) = ts"
  by (induction ts rule: coefficient_groups.induct) simp_all

lemma coefficient_groups_nonempty: "[] \<notin> set (coefficient_groups ts)"
  by (induction ts rule: coefficient_groups.induct) simp_all

lemma coefficient_groups_near:
  "\<forall>g \<in> set (coefficient_groups ts). \<forall>t \<in> set g. near (snd (hd g)) t"
proof (induction ts rule: coefficient_groups.induct)
  case 1
  then show ?case by simp
next
  case (2 t ts)
  have "near (snd t) t" by (simp add: near_def round_double_0 double_1e_4_def)
  moreover have "\<forall>u \<in> set (takeWhile (near (snd t)) ts). near (snd t) u"
    by (auto dest: set_takeWhileD)
  ultimately show ?case using 2 by simp
qed

lemma coefficient_groups_break:
  "\<forall>i. Suc i < length (coefficient_groups ts) \<longrightarrow>
     \<not> near (snd (hd (coefficient_groups ts ! i))) (hd (coefficient_groups ts ! Suc i))"
proof (induction ts rule: coefficient_groups.induct)
  case 1
  then show ?case by simp
next
  case (2 t ts)
  let ?rest = "dropWhile (near (snd t)) ts"
  show ?case
  proof (intro allI impI)
    fix i
    assume i: "Suc i < length (coefficient_groups (t # ts))"
    show "\<not> near (snd (hd (coefficient_groups (t # ts) ! i)))
              (hd (coefficient_groups (t # ts) ! Suc i))"
    proof (cases i)
      case 0
      with i have "coefficient_groups ?rest \<noteq> []" by simp
      then have ne: "?rest \<noteq> []" by (cases ?rest) simp_all
      then obtain u us where u: "?rest = u # us" by (cases ?rest) auto
      from ne have "\<not> near (snd t) (hd ?rest)" by (rule hd_dropWhile)
      with 0 u show ?thesis by simp
    next
      case (Suc j)
      with i 2 show ?thesis by simp
    qed
  qed
qed

text \<open>
  What the grouping does when no coefficient but the last is above \<open>10000\<close>: the
  operators returned are the groups of the specification. Their term lists,
  concatenated, are the entries of the dictionary in file order, no operator is empty,
  every entry of an operator is within \<^verbatim>\<open>1e-4\<close> of the operator's first coefficient in
  magnitude, and the first entry of every operator but the first is not within
  \<^verbatim>\<open>1e-4\<close> of the first coefficient of the operator before it.
\<close>

lemma readPauliExcitation_groups:
  assumes "ansatzes norb circuit_id = Some ansatz_dict"
    and "ansatz_dict \<noteq> []"
    and "\<forall>t \<in> set (butlast ansatz_dict). snd t \<le> 10000"
  shows "\<exists>ops. readPauliExcitation ansatzes norb circuit_id = Inr ops
         \<and> ops = map SparsePauliOp (coefficient_groups ansatz_dict)
         \<and> concat (map to_list ops) = ansatz_dict
         \<and> (\<forall>P \<in> set ops. to_list P \<noteq> [])
         \<and> (\<forall>P \<in> set ops. \<forall>t \<in> set (to_list P).
               \<bar>round_double (\<bar>snd t\<bar> - \<bar>snd (hd (to_list P))\<bar>)\<bar> \<le> double_1e_4)
         \<and> (\<forall>i. Suc i < length ops \<longrightarrow>
               \<bar>round_double (\<bar>snd (hd (to_list (ops ! Suc i)))\<bar>
                                - \<bar>snd (hd (to_list (ops ! i)))\<bar>)\<bar> > double_1e_4)"
proof -
  let ?gs = "coefficient_groups ansatz_dict"
  from assms(2) obtain t ts where d: "ansatz_dict = t # ts"
    by (cases ansatz_dict) auto
  obtain ext v where t: "t = (ext, v)" by (cases t)
  have run: "readPauliExcitation ansatzes norb circuit_id = Inr (map SparsePauliOp ?gs)"
  proof (cases "ts = []")
    case True
    then show ?thesis
      by (simp add: readPauliExcitation_def assms(1) d t from_list_def)
  next
    case False
    with assms(3) have v: "v \<le> 10000" and ts: "\<forall>t \<in> set (butlast ts). snd t \<le> 10000"
      by (simp_all add: d t)
    have "[t] \<noteq> []" by simp
    note loop = excitation_loop_groups [OF this v ts, of "[]"]
    then show ?thesis
      by (simp add: readPauliExcitation_def assms(1) d t)
  qed
  have tl: "map to_list (map SparsePauliOp ?gs) = ?gs"
    by (simp add: comp_def)
  have cc: "concat (map to_list (map SparsePauliOp ?gs)) = ansatz_dict"
    unfolding tl by (rule concat_coefficient_groups)
  have ne: "\<forall>P \<in> set (map SparsePauliOp ?gs). to_list P \<noteq> []"
    using coefficient_groups_nonempty [of ansatz_dict] by auto
  have nr: "\<forall>P \<in> set (map SparsePauliOp ?gs). \<forall>t \<in> set (to_list P).
               \<bar>round_double (\<bar>snd t\<bar> - \<bar>snd (hd (to_list P))\<bar>)\<bar> \<le> double_1e_4"
    using coefficient_groups_near [of ansatz_dict] by (fastforce simp add: near_def not_less)
  have bk: "\<forall>i. Suc i < length (map SparsePauliOp ?gs) \<longrightarrow>
               \<bar>round_double (\<bar>snd (hd (to_list (map SparsePauliOp ?gs ! Suc i)))\<bar>
                                - \<bar>snd (hd (to_list (map SparsePauliOp ?gs ! i)))\<bar>)\<bar>
                 > double_1e_4"
    using coefficient_groups_break [of ansatz_dict] by (simp add: near_def)
  from run cc ne nr bk show ?thesis by blast
qed

lemma small_groups:
  "readPauliExcitation small_ansatzes 2 0 =
     Inr [SparsePauliOp [(''XX'', 1 / 2), (''YY'', - (1 / 2))],
          SparsePauliOp [(''ZZ'', 1 / 4)], SparsePauliOp [(''ZI'', 1 / 2)]]"
  using readPauliExcitation_groups [of small_ansatzes 2 0
      "[(''XX'', 1 / 2), (''YY'', - (1 / 2)), (''ZZ'', 1 / 4), (''ZI'', 1 / 2)]"]
  by (simp add: small_ansatzes_def near_def round_double_0 round_double_quarter
      round_double_minus_quarter double_1e_4_def)

text \<open>
  The entries \<^verbatim>\<open>0.1\<close> and \<^verbatim>\<open>0.0999\<close> are in two groups: the floats differ by more than
  the float \<^verbatim>\<open>1e-4\<close>, though the decimal numbers do not.
\<close>

lemma close_groups:
  "readPauliExcitation close_ansatzes 2 0 =
     Inr [SparsePauliOp [(''XX'', 3602879701896397 / 36028797018963968)],
          SparsePauliOp [(''YY'', 7198553644389001 / 72057594037927936)]]"
  by (simp add: readPauliExcitation_def close_ansatzes_def from_list_def round_double_close
      double_1e_4_def)

text \<open>
  C1. The claim: every entry of the ansatz dictionary is in exactly one of the groups
  that \<^verbatim>\<open>readPauliExcitation\<close> returns, and the groups, concatenated, are the entries in
  file order. On the file \<^verbatim>\<open>{"XX": 20000.0, "YY": 20000.0}\<close> the loop takes the
  coefficient of \<open>XX\<close>, by then \<^verbatim>\<open>cur_coeff\<close>, for its start marker \<^verbatim>\<open>1e5\<close> (the test
  \<^verbatim>\<open>cur_coeff > 1e4\<close> of line 210) and starts the current group again without storing it,
  where the branch of line 213 stores the current group before it starts the next: the
  result is the one operator \<open>YY\<close>, and \<open>XX\<close> is in no group.
\<close>

theorem readPauliExcitation_large_coefficient:
  "readPauliExcitation large_ansatzes 2 0 = Inr [SparsePauliOp [(''YY'', 20000)]]
   \<and> large_ansatzes 2 0 = Some [(''XX'', 20000), (''YY'', 20000)]
   \<and> concat (map to_list [SparsePauliOp [(''YY'', 20000)]])
       \<noteq> [(''XX'', 20000), (''YY'', 20000)]"
  by (simp add: readPauliExcitation_def large_ansatzes_def from_list_def)

subsection \<open>The ansatz circuit\<close>

lemma ClusterOperatorCircuit_result:
  "\<exists>st'. ClusterOperatorCircuit P exc st = (Inr (length (heap st)), st')
     \<and> heap st' = heap st @ [\<lparr>name = ''Cluster Op '' @ str_tuple exc,
           num_qubits = op_num_qubits P, num_clbits = 0,
           data = [CircuitInstruction (PauliEvolutionGate P 1 (LieTrotter 1))
                     [0..<op_num_qubits P] []],
           metadata = Map.empty\<rparr>]"
proof -
  define n where "n = op_num_qubits P"
  define r where "r = length (heap st)"
  define c0 where "c0 = \<lparr>name = ''circuit'', num_qubits = n, num_clbits = 0, data = [],
                 metadata = Map.empty\<rparr>"
  define c1 where "c1 = c0\<lparr>data := [CircuitInstruction (PauliEvolutionGate P 1 (LieTrotter 1))
                     [0..<n] []]\<rparr>"
  define c2 where "c2 = c1\<lparr>name := ''Cluster Op '' @ str_tuple exc\<rparr>"
  define st3 where "st3 = st\<lparr>heap := heap st @ [c2]\<rparr>"
  define st4 where "st4 = (if CO_saved st3 = None \<or> num_qubits (heap st3 ! r) \<le> 4
                         then (if num_qubits (heap st3 ! r) < 7
                               then st3\<lparr>CO_saved := Some r\<rparr> else st3)
                         else st3)"
  have QC: "QuantumCircuit (int n) ''circuit'' = Inr c0"
    by (simp add: QuantumCircuit_def c0_def)
  have al: "alloc c0 st = (r, st\<lparr>heap := heap st @ [c0]\<rparr>)"
    by (simp add: alloc_def r_def)
  have ap: "append_op (PauliEvolutionGate P 1 (LieTrotter 1)) [0..<n] c0 = Inr c1"
    by (simp add: append_op_def op_width_def c0_def c1_def n_def)
  have m1: "mutate r (append_op (PauliEvolutionGate P 1 (LieTrotter 1)) [0..<n])
              (st\<lparr>heap := heap st @ [c0]\<rparr>) = (Inr (), st\<lparr>heap := heap st @ [c1]\<rparr>)"
    using ap by (simp add: mutate_def r_def)
  have m2: "mutate r (\<lambda>c. Inr (c\<lparr>name := ''Cluster Op '' @ str_tuple exc\<rparr>))
              (st\<lparr>heap := heap st @ [c1]\<rparr>) = (Inr (), st3)"
    by (simp add: mutate_def r_def st3_def c2_def)
  have run: "ClusterOperatorCircuit P exc st = (Inr r, st4)"
    using m1 m2
    by (simp add: ClusterOperatorCircuit_def Let_def QC al st4_def flip: n_def)
  have "heap st4 = heap st @ [c2]"
    by (simp add: st4_def st3_def)
  moreover have "c2 = \<lparr>name = ''Cluster Op '' @ str_tuple exc,
           num_qubits = op_num_qubits P, num_clbits = 0,
           data = [CircuitInstruction (PauliEvolutionGate P 1 (LieTrotter 1))
                     [0..<op_num_qubits P] []],
           metadata = Map.empty\<rparr>"
    by (simp add: c2_def c1_def c0_def n_def)
  ultimately show ?thesis
    using run unfolding r_def by blast
qed

lemma cluster_step_result:
  assumes "q < length (heap st)"
    and "fst ip < length excs"
    and "op_num_qubits (snd ip) \<le> num_qubits (heap st ! q)"
  shows "\<exists>st'. cluster_step q excs ip st = (Inr (), st')
     \<and> length (heap st) \<le> length (heap st')
     \<and> heap st' ! q = (heap st ! q)
          \<lparr>data := data (heap st ! q) @ [cluster_instruction excs ip]\<rparr>"
proof -
  let ?n = "op_num_qubits (snd ip)"
  let ?cc = "\<lparr>name = ''Cluster Op '' @ str_tuple (excs ! fst ip),
           num_qubits = ?n, num_clbits = 0,
           data = [CircuitInstruction (PauliEvolutionGate (snd ip) 1 (LieTrotter 1))
                     [0..<?n] []],
           metadata = Map.empty\<rparr>"
  from ClusterOperatorCircuit_result [of "snd ip" "excs ! fst ip" st]
  obtain st1 where
    co: "ClusterOperatorCircuit (snd ip) (excs ! fst ip) st = (Inr (length (heap st)), st1)"
    and h1: "heap st1 = heap st @ [?cc]"
    by blast
  from h1 have new: "heap st1 ! length (heap st) = ?cc"
    by simp
  from h1 assms(1) have old: "heap st1 ! q = heap st ! q"
    by (simp add: nth_append)
  have ap: "append_op (to_instruction ?cc) [0..<?n] (heap st ! q)
      = Inr ((heap st ! q)\<lparr>data := data (heap st ! q) @ [cluster_instruction excs ip]\<rparr>)"
    using assms(3)
    by (simp add: append_op_def to_instruction_def op_width_def cluster_instruction_def)
  let ?st' = "st1\<lparr>heap := (heap st1)[q := (heap st ! q)
      \<lparr>data := data (heap st ! q) @ [cluster_instruction excs ip]\<rparr>]\<rparr>"
  have "cluster_step q excs ip st = (Inr (), ?st')"
    using ap by (simp add: cluster_step_def assms(2) co new old mutate_def)
  moreover have "length (heap st) \<le> length (heap ?st')"
    by (simp add: h1)
  moreover have "heap ?st' ! q = (heap st ! q)
          \<lparr>data := data (heap st ! q) @ [cluster_instruction excs ip]\<rparr>"
    using assms(1) by (simp add: h1)
  ultimately show ?thesis by blast
qed

lemma cluster_loop_result:
  assumes "q < length (heap st)"
    and "\<forall>ip \<in> set items. fst ip < length excs
           \<and> op_num_qubits (snd ip) \<le> num_qubits (heap st ! q)"
  shows "\<exists>st'. for_each items (cluster_step q excs) st = (Inr (), st')
     \<and> length (heap st) \<le> length (heap st')
     \<and> heap st' ! q = (heap st ! q)
          \<lparr>data := data (heap st ! q) @ map (cluster_instruction excs) items\<rparr>"
  using assms
proof (induction items arbitrary: st)
  case Nil
  then show ?case by simp
next
  case (Cons ip items)
  from Cons.prems have "fst ip < length excs"
    and "op_num_qubits (snd ip) \<le> num_qubits (heap st ! q)"
    by simp_all
  from cluster_step_result [OF Cons.prems(1) this] obtain st1 where
    s1: "cluster_step q excs ip st = (Inr (), st1)"
    and l1: "length (heap st) \<le> length (heap st1)"
    and h1: "heap st1 ! q = (heap st ! q)
          \<lparr>data := data (heap st ! q) @ [cluster_instruction excs ip]\<rparr>"
    by blast
  from l1 Cons.prems(1) have q1: "q < length (heap st1)" by simp
  from Cons.prems(2) h1 have "\<forall>ip \<in> set items. fst ip < length excs
           \<and> op_num_qubits (snd ip) \<le> num_qubits (heap st1 ! q)"
    by simp
  from Cons.IH [OF q1 this] obtain st' where
    r: "for_each items (cluster_step q excs) st1 = (Inr (), st')"
    and l': "length (heap st1) \<le> length (heap st')"
    and h': "heap st' ! q = (heap st1 ! q)
          \<lparr>data := data (heap st1 ! q) @ map (cluster_instruction excs) items\<rparr>"
    by blast
  have "for_each (ip # items) (cluster_step q excs) st = (Inr (), st')"
    by (simp add: s1 r)
  moreover from l1 l' have "length (heap st) \<le> length (heap st')" by simp
  moreover from h' h1 have "heap st' ! q = (heap st ! q)
          \<lparr>data := data (heap st ! q) @ map (cluster_instruction excs) (ip # items)\<rparr>"
    by simp
  ultimately show ?case by blast
qed

lemma ansatz_circuit_result:
  assumes "hamiltonians n = Some ham" and "ham \<noteq> []"
    and "0 \<le> n" and "2 * na \<le> n" and "2 * nb \<le> n"
    and "readPauliExcitation ansatzes n circuit_id = Inr pauli_list"
    and "length pauli_list \<le> length (excitations n na nb)"
    and "\<forall>P \<in> set pauli_list. op_num_qubits P \<le> nat n"
  shows "\<exists>st'. ansatz_circuit hamiltonians ansatzes n na nb circuit_id meth st
               = (Inr (length (heap st), SparsePauliOp ham), st')
     \<and> length (heap st) < length (heap st')
     \<and> heap st' ! length (heap st) =
          \<lparr>name = ''vqe-ansatz('' @ str_int meth @ '') '' @ str_int n @ '' ''
                    @ str_int circuit_id,
           num_qubits = nat n, num_clbits = 0,
           data = hf_instruction n na nb
                    # map (cluster_instruction (excitations n na nb)) (enumerate 0 pauli_list),
           metadata = Map.empty\<rparr>"
proof -
  define q where "q = length (heap st)"
  define nm where "nm = ''vqe-ansatz('' @ str_int meth @ '') '' @ str_int n @ '' ''
                    @ str_int circuit_id"
  define c0 where "c0 = \<lparr>name = nm, num_qubits = nat n, num_clbits = 0, data = [],
                 metadata = Map.empty\<rparr>"
  define st1 where "st1 = st\<lparr>heap := heap st @ [c0]\<rparr>"
  define excs where "excs = excitations n na nb"
  have RH: "ReadHamiltonian hamiltonians n = Inr (SparsePauliOp ham)"
    using assms(1,2) by (simp add: ReadHamiltonian_def from_list_def)
  have QC: "QuantumCircuit n nm = Inr c0"
    using assms(3) by (simp add: QuantumCircuit_def c0_def)
  have al: "alloc c0 st = (q, st1)"
    by (simp add: alloc_def q_def st1_def)
  from HartreeFock_result [OF assms(3,4,5), of st1] obtain st2 where
    hf: "HartreeFock n na nb st1 = (Inr (length (heap st1)), st2)"
    and h2: "heap st2 = heap st1 @ [\<lparr>name = ''Hf'', num_qubits = nat n, num_clbits = 0,
               data = map (\<lambda>q. CircuitInstruction XGate [q] [])
                        (map nat [0..na - 1] @ map (\<lambda>ib. nat (ib + n div 2)) [0..nb - 1]),
               metadata = Map.empty\<rparr>]"
    by blast
  have l1: "length (heap st1) = Suc q"
    by (simp add: st1_def q_def)
  have new2: "to_instruction (heap st2 ! length (heap st1)) =
      SubCircuit ''Hf'' (nat n) (map (\<lambda>q. CircuitInstruction XGate [q] [])
                        (map nat [0..na - 1] @ map (\<lambda>ib. nat (ib + n div 2)) [0..nb - 1]))"
    by (simp add: h2 to_instruction_def)
  have old2: "heap st2 ! q = c0"
    by (simp add: h2 st1_def q_def nth_append)
  define c1 where "c1 = c0\<lparr>data := [hf_instruction n na nb]\<rparr>"
  define st3 where "st3 = st2\<lparr>heap := (heap st2)[q := c1]\<rparr>"
  have ap: "append_op (to_instruction (heap st2 ! length (heap st1))) [0..<nat n] c0 = Inr c1"
    unfolding new2
    by (simp add: append_op_def op_width_def c0_def c1_def hf_instruction_def)
  have m3: "mutate q (append_op (to_instruction (heap st2 ! length (heap st1))) [0..<nat n]) st2
      = (Inr (), st3)"
    by (simp add: mutate_def old2 ap st3_def)
  have q3: "q < length (heap st3)"
    by (simp add: st3_def h2 st1_def q_def)
  have h3: "heap st3 ! q = c1"
    by (simp add: st3_def h2 st1_def q_def)
  have items: "\<forall>ip \<in> set (enumerate 0 pauli_list). fst ip < length excs
           \<and> op_num_qubits (snd ip) \<le> num_qubits (heap st3 ! q)"
  proof
    fix ip
    assume "ip \<in> set (enumerate 0 pauli_list)"
    then have i: "fst ip < length pauli_list" and s: "snd ip = pauli_list ! fst ip"
      by (simp_all add: in_set_enumerate_eq)
    from i s have "snd ip \<in> set pauli_list" by simp
    with assms(8) have "op_num_qubits (snd ip) \<le> nat n" by blast
    moreover from i assms(7) have "fst ip < length excs" by (simp add: excs_def)
    ultimately show "fst ip < length excs
           \<and> op_num_qubits (snd ip) \<le> num_qubits (heap st3 ! q)"
      by (simp add: h3 c1_def c0_def)
  qed
  from cluster_loop_result [OF q3 items] obtain st4 where
    lp: "for_each (enumerate 0 pauli_list) (cluster_step q excs) st3 = (Inr (), st4)"
    and l4: "length (heap st3) \<le> length (heap st4)"
    and h4: "heap st4 ! q = (heap st3 ! q)
          \<lparr>data := data (heap st3 ! q) @ map (cluster_instruction excs) (enumerate 0 pauli_list)\<rparr>"
    by blast
  define st5 where "st5 = (if QC_saved st4 = None
           then (if num_qubits (heap st4 ! q) < 7 then st4\<lparr>QC_saved := Some q\<rparr> else st4)
           else st4)"
  have run: "ansatz_circuit hamiltonians ansatzes n na nb circuit_id meth st
               = (Inr (q, SparsePauliOp ham), st5)"
    using QC [unfolded nm_def]
    by (simp add: ansatz_circuit_def RH al hf l1
        m3 [unfolded l1] assms(6) lp [unfolded excs_def] st5_def)
  have h5: "heap st5 = heap st4"
    by (simp add: st5_def)
  from q3 l4 have "q < length (heap st5)"
    by (simp add: h5)
  moreover have "heap st5 ! q = \<lparr>name = nm, num_qubits = nat n, num_clbits = 0,
           data = hf_instruction n na nb
                    # map (cluster_instruction excs) (enumerate 0 pauli_list),
           metadata = Map.empty\<rparr>"
    by (simp add: h5 h4 h3 c1_def c0_def)
  ultimately show ?thesis
    using run unfolding q_def nm_def excs_def by blast
qed

lemma VQEEnergy_result:
  assumes "hamiltonians n = Some ham" and "ham \<noteq> []"
    and "0 \<le> n" and "2 * na \<le> n" and "2 * nb \<le> n"
    and "readPauliExcitation ansatzes n circuit_id = Inr pauli_list"
    and "length pauli_list \<le> length (excitations n na nb)"
    and "\<forall>P \<in> set pauli_list. op_num_qubits P \<le> nat n"
    and "meth = 1 \<longrightarrow> 2 \<le> length ham"
    and "meth \<noteq> 1 \<longrightarrow> commuting_groups (SparsePauliOp (tl ham)) \<noteq> 0"
  shows "\<exists>st'. VQEEnergy str_float commuting_groups hamiltonians ansatzes
                 n na nb circuit_id meth st
               = (Inr (length (heap st),
                       if meth = 1 then Observable (SparsePauliOp [ham ! 1])
                       else ObservableList (map (\<lambda>t. SparsePauliOp [t]) (tl ham))), st')
     \<and> data (heap st' ! length (heap st)) =
          hf_instruction n na nb
            # map (cluster_instruction (excitations n na nb)) (enumerate 0 pauli_list)"
proof -
  define q where "q = length (heap st)"
  define instrs where "instrs = hf_instruction n na nb
            # map (cluster_instruction (excitations n na nb)) (enumerate 0 pauli_list)"
  from ansatz_circuit_result [where hamiltonians = hamiltonians and n = n and ham = ham
      and ansatzes = ansatzes and meth = meth and st = st, OF assms(1-8)]
  obtain st1 c where
    ac: "ansatz_circuit hamiltonians ansatzes n na nb circuit_id meth st
               = (Inr (q, SparsePauliOp ham), st1)"
    and q1: "q < length (heap st1)"
    and h1: "heap st1 ! q = c" and c: "data c = instrs"
    unfolding q_def instrs_def by fastforce
  show ?thesis
  proof (cases "meth = 1")
    case True
    with assms(9) have len: "2 \<le> length ham" by simp
    then have gi: "op_getitem (SparsePauliOp ham) 1 = Inr (SparsePauliOp [ham ! 1])"
      by (simp add: op_getitem_def op_size_def)
    define v where "v = MStr (fst (ham ! 1) @ '' '' @ str_float (snd (ham ! 1)))"
    define st2 where "st2 = st1\<lparr>heap := (heap st1)[q := c\<lparr>metadata := (metadata c)(''method1'' \<mapsto> v)\<rparr>]\<rparr>"
    have "mutate q (set_metadata ''method1'' v) st1 = (Inr (), st2)"
      by (simp add: mutate_def set_metadata_def h1 st2_def)
    then have "VQEEnergy str_float commuting_groups hamiltonians ansatzes
                 n na nb circuit_id meth st
               = (Inr (q, Observable (SparsePauliOp [ham ! 1])), st2)"
      by (simp add: VQEEnergy_def True ac [unfolded True] gi v_def)
    moreover from q1 have "data (heap st2 ! q) = instrs"
      by (simp add: st2_def c)
    ultimately show ?thesis
      using True unfolding q_def instrs_def by auto
  next
    case False
    with assms(10) have cg: "commuting_groups (SparsePauliOp (tl ham)) \<noteq> 0" by simp
    define P1 where "P1 = SparsePauliOp (tl ham)"
    have sl: "op_slice_from (SparsePauliOp ham) 1 = P1"
      by (simp add: op_slice_from_def P1_def drop_Suc)
    have ol: "op_list P1 = map (\<lambda>t. SparsePauliOp [t]) (tl ham)"
      by (simp add: op_list_def P1_def)
    define total where "total = sum_list (map (\<lambda>p. \<bar>snd (hd (to_list p))\<bar>) (op_list P1))"
    define st3 where "st3 = st1\<lparr>normalization := Some (total / real (commuting_groups P1))\<rparr>"
    define st4 where "st4 = st3\<lparr>heap := (heap st3)[q := c\<lparr>metadata := (metadata c)(''method2'' \<mapsto> MOp P1)\<rparr>]\<rparr>"
    have h3: "heap st3 ! q = c"
      by (simp add: st3_def h1)
    have m: "mutate q (set_metadata ''method2'' (MOp P1)) st3 = (Inr (), st4)"
      by (simp add: mutate_def set_metadata_def h3 st4_def)
    have "VQEEnergy str_float commuting_groups hamiltonians ansatzes
                 n na nb circuit_id meth st
               = (Inr (q, ObservableList (op_list P1)), st4)"
      using False cg [folded P1_def] m sl
      by (simp add: VQEEnergy_def ac Let_def st3_def total_def)
    moreover from q1 have "data (heap st4 ! q) = instrs"
      by (simp add: st4_def st3_def c)
    ultimately show ?thesis
      using False unfolding q_def instrs_def ol by auto
  qed
qed

lemma sample_pauli_list:
  "readPauliExcitation sample_ansatzes 4 0 =
     Inr [SparsePauliOp [(''IIXY'', 1 / 8), (''IIYX'', - (1 / 8))],
          SparsePauliOp [(''XYII'', 1 / 4)]]"
  by (simp add: readPauliExcitation_def sample_ansatzes_def from_list_def round_double_0
      round_double_eighth double_1e_4_def)

lemma sample_excitations: "excitations 4 1 1 = [[0, 1], [2, 3], [0, 1, 2, 3]]"
  by (simp add: excitations_def int_half_def py_range_def upto.simps)

lemma sample_VQEEnergy:
  "\<exists>st'. VQEEnergy sample_str_float sample_commuting_groups sample_hamiltonians
            sample_ansatzes 4 1 1 0 meth empty_state
          = (Inr (0, if meth = 1 then Observable (SparsePauliOp [(''ZIII'', 1 / 2)])
                     else ObservableList [SparsePauliOp [(''ZIII'', 1 / 2)],
                                           SparsePauliOp [(''IZII'', 1 / 4)]]), st')
     \<and> data (heap st' ! 0) =
          [hf_instruction 4 1 1,
           cluster_instruction [[0, 1], [2, 3], [0, 1, 2, 3]]
             (0, SparsePauliOp [(''IIXY'', 1 / 8), (''IIYX'', - (1 / 8))]),
           cluster_instruction [[0, 1], [2, 3], [0, 1, 2, 3]]
             (1, SparsePauliOp [(''XYII'', 1 / 4)])]"
proof -
  have "sample_hamiltonians 4 = Some [(''IIII'', 1), (''ZIII'', 1 / 2), (''IZII'', 1 / 4)]"
    by (simp add: sample_hamiltonians_def)
  from VQEEnergy_result [where hamiltonians = sample_hamiltonians and n = 4
      and ansatzes = sample_ansatzes and na = 1 and nb = 1 and meth = meth
      and commuting_groups = sample_commuting_groups and str_float = sample_str_float
      and st = empty_state, OF this _ _ _ _ sample_pauli_list]
  show ?thesis
    by (cases "meth = 1")
      (simp_all add: sample_excitations op_num_qubits_def sample_commuting_groups_def
        op_size_def empty_state_def)
qed

text \<open>
  C4. For every valid input, that is: the Hamiltonian file of \<open>n\<close> qubits exists and has
  the terms the meth needs, \<open>n\<close>, \<open>na\<close> and \<open>nb\<close> are a qubit count and electron counts
  with \<open>na, nb \<le> n / 2\<close>, and the ansatz file gives grouped operators \<open>pauli_list\<close>, no
  more of them than there are excitations and none wider than \<open>n\<close> qubits: the circuit
  \<^verbatim>\<open>VQEEnergy\<close> returns holds the Hartree-Fock circuit as its first instruction, followed
  by one cluster-operator circuit for each operator of \<open>pauli_list\<close>, in the order of
  \<open>pauli_list\<close>, and nothing else; the cluster-operator circuit of an operator \<open>P\<close> holds
  one instruction, the evolution gate of \<open>P\<close> for time 1 with the first-order
  (Lie-Trotter) synthesis in one repetition.
\<close>

theorem VQEEnergy_ansatz:
  assumes "hamiltonians n = Some ham" and "ham \<noteq> []"
    and "0 \<le> n" and "2 * na \<le> n" and "2 * nb \<le> n"
    and "readPauliExcitation ansatzes n circuit_id = Inr pauli_list"
    and "length pauli_list \<le> length (excitations n na nb)"
    and "\<forall>P \<in> set pauli_list. op_num_qubits P \<le> nat n"
    and "meth = 1 \<longrightarrow> 2 \<le> length ham"
    and "meth \<noteq> 1 \<longrightarrow> commuting_groups (SparsePauliOp (tl ham)) \<noteq> 0"
  shows "\<exists>obs st'. VQEEnergy str_float commuting_groups hamiltonians ansatzes
                 n na nb circuit_id meth st = (Inr (length (heap st), obs), st')
     \<and> data (heap st' ! length (heap st)) =
          hf_instruction n na nb
            # map (cluster_instruction (excitations n na nb)) (enumerate 0 pauli_list)
     \<and> (\<forall>i < length pauli_list.
           data (heap st' ! length (heap st)) ! Suc i =
             CircuitInstruction
               (SubCircuit (''Cluster Op '' @ str_tuple (excitations n na nb ! i))
                  (op_num_qubits (pauli_list ! i))
                  [CircuitInstruction (PauliEvolutionGate (pauli_list ! i) 1 (LieTrotter 1))
                     [0..<op_num_qubits (pauli_list ! i)] []])
               [0..<op_num_qubits (pauli_list ! i)] [])"
proof -
  from VQEEnergy_result [where hamiltonians = hamiltonians and n = n and ham = ham
      and ansatzes = ansatzes and meth = meth and st = st
      and commuting_groups = commuting_groups and str_float = str_float, OF assms]
  obtain obs st' where
    r: "VQEEnergy str_float commuting_groups hamiltonians ansatzes
                 n na nb circuit_id meth st = (Inr (length (heap st), obs), st')"
    and d: "data (heap st' ! length (heap st)) =
          hf_instruction n na nb
            # map (cluster_instruction (excitations n na nb)) (enumerate 0 pauli_list)"
    by blast
  have "\<forall>i < length pauli_list.
           data (heap st' ! length (heap st)) ! Suc i =
             CircuitInstruction
               (SubCircuit (''Cluster Op '' @ str_tuple (excitations n na nb ! i))
                  (op_num_qubits (pauli_list ! i))
                  [CircuitInstruction (PauliEvolutionGate (pauli_list ! i) 1 (LieTrotter 1))
                     [0..<op_num_qubits (pauli_list ! i)] []])
               [0..<op_num_qubits (pauli_list ! i)] []"
    by (simp add: d cluster_instruction_def nth_enumerate_eq)
  with r d show ?thesis by blast
qed

theorem VQEEnergy_ansatz_witness:
  "\<exists>obs st'. VQEEnergy sample_str_float sample_commuting_groups sample_hamiltonians
            sample_ansatzes 4 1 1 0 1 empty_state = (Inr (0, obs), st')
     \<and> data (heap st' ! 0) =
          [hf_instruction 4 1 1,
           cluster_instruction [[0, 1], [2, 3], [0, 1, 2, 3]]
             (0, SparsePauliOp [(''IIXY'', 1 / 8), (''IIYX'', - (1 / 8))]),
           cluster_instruction [[0, 1], [2, 3], [0, 1, 2, 3]]
             (1, SparsePauliOp [(''XYII'', 1 / 4)])]"
proof -
  have "sample_hamiltonians 4 = Some [(''IIII'', 1), (''ZIII'', 1 / 2), (''IZII'', 1 / 4)]"
    by (simp add: sample_hamiltonians_def)
  from VQEEnergy_ansatz [where hamiltonians = sample_hamiltonians and n = 4
      and ansatzes = sample_ansatzes and na = 1 and nb = 1 and meth = 1
      and commuting_groups = sample_commuting_groups and str_float = sample_str_float
      and st = empty_state, OF this _ _ _ _ sample_pauli_list]
  show ?thesis
    by (simp add: sample_excitations op_num_qubits_def empty_state_def) blast
qed

text \<open>
  C2, as amended. On a valid input, \<^verbatim>\<open>VQEEnergy\<close> returns with the circuit, for meth 1,
  one term of the Hamiltonian read for the qubit count, the term at index 1, and for
  meth 2 the list of the terms of that Hamiltonian without its first term (the
  identity term at index 0), in their order.
\<close>

theorem VQEEnergy_observables:
  assumes "hamiltonians n = Some ham" and "ham \<noteq> []"
    and "0 \<le> n" and "2 * na \<le> n" and "2 * nb \<le> n"
    and "readPauliExcitation ansatzes n circuit_id = Inr pauli_list"
    and "length pauli_list \<le> length (excitations n na nb)"
    and "\<forall>P \<in> set pauli_list. op_num_qubits P \<le> nat n"
    and "meth = 1 \<longrightarrow> 2 \<le> length ham"
    and "meth \<noteq> 1 \<longrightarrow> commuting_groups (SparsePauliOp (tl ham)) \<noteq> 0"
  shows "ReadHamiltonian hamiltonians n = Inr (SparsePauliOp ham)
     \<and> (meth = 1 \<longrightarrow> ham ! 1 \<in> set ham \<and>
          (\<exists>st'. VQEEnergy str_float commuting_groups hamiltonians ansatzes
                   n na nb circuit_id meth st
                 = (Inr (length (heap st), Observable (SparsePauliOp [ham ! 1])), st')))
     \<and> (meth = 2 \<longrightarrow>
          (\<exists>st'. VQEEnergy str_float commuting_groups hamiltonians ansatzes
                   n na nb circuit_id meth st
                 = (Inr (length (heap st),
                         ObservableList (map (\<lambda>t. SparsePauliOp [t]) (tl ham))), st')))"
proof -
  have RH: "ReadHamiltonian hamiltonians n = Inr (SparsePauliOp ham)"
    using assms(1,2) by (simp add: ReadHamiltonian_def from_list_def)
  from VQEEnergy_result [where hamiltonians = hamiltonians and n = n and ham = ham
      and ansatzes = ansatzes and meth = meth and st = st
      and commuting_groups = commuting_groups and str_float = str_float, OF assms]
  obtain st' where
    r: "VQEEnergy str_float commuting_groups hamiltonians ansatzes
                 n na nb circuit_id meth st
          = (Inr (length (heap st),
                  if meth = 1 then Observable (SparsePauliOp [ham ! 1])
                  else ObservableList (map (\<lambda>t. SparsePauliOp [t]) (tl ham))), st')"
    by blast
  have "meth = 1 \<longrightarrow> ham ! 1 \<in> set ham"
  proof
    assume "meth = 1"
    with assms(9) have "1 < length ham" by simp
    then show "ham ! 1 \<in> set ham" by (rule nth_mem)
  qed
  with RH r show ?thesis by auto
qed

theorem VQEEnergy_observables_witness:
  "(\<exists>st'. VQEEnergy sample_str_float sample_commuting_groups sample_hamiltonians
            sample_ansatzes 4 1 1 0 1 empty_state
          = (Inr (0, Observable (SparsePauliOp [(''ZIII'', 1 / 2)])), st'))
   \<and> (\<exists>st'. VQEEnergy sample_str_float sample_commuting_groups sample_hamiltonians
            sample_ansatzes 4 1 1 0 2 empty_state
          = (Inr (0, ObservableList [SparsePauliOp [(''ZIII'', 1 / 2)],
                                      SparsePauliOp [(''IZII'', 1 / 4)]]), st'))"
proof -
  have h: "sample_hamiltonians 4 = Some [(''IIII'', 1), (''ZIII'', 1 / 2), (''IZII'', 1 / 4)]"
    by (simp add: sample_hamiltonians_def)
  from VQEEnergy_observables [where hamiltonians = sample_hamiltonians and n = 4
      and ansatzes = sample_ansatzes and na = 1 and nb = 1 and meth = 1
      and commuting_groups = sample_commuting_groups and str_float = sample_str_float
      and st = empty_state, OF h _ _ _ _ sample_pauli_list]
  have m1: "\<exists>st'. VQEEnergy sample_str_float sample_commuting_groups sample_hamiltonians
            sample_ansatzes 4 1 1 0 1 empty_state
          = (Inr (0, Observable (SparsePauliOp [(''ZIII'', 1 / 2)])), st')"
    by (simp add: sample_excitations op_num_qubits_def empty_state_def)
  from VQEEnergy_observables [where hamiltonians = sample_hamiltonians and n = 4
      and ansatzes = sample_ansatzes and na = 1 and nb = 1 and meth = 2
      and commuting_groups = sample_commuting_groups and str_float = sample_str_float
      and st = empty_state, OF h _ _ _ _ sample_pauli_list]
  have m2: "\<exists>st'. VQEEnergy sample_str_float sample_commuting_groups sample_hamiltonians
            sample_ansatzes 4 1 1 0 2 empty_state
          = (Inr (0, ObservableList [SparsePauliOp [(''ZIII'', 1 / 2)],
                                      SparsePauliOp [(''IZII'', 1 / 4)]]), st')"
    by (simp add: sample_excitations op_num_qubits_def sample_commuting_groups_def
        op_size_def empty_state_def)
  from m1 m2 show ?thesis by blast
qed

text \<open>
  C2 as the specification states it fails for method 2: of the three terms of the sample
  Hamiltonian the returned list holds two, the identity term is left out.
\<close>

theorem VQEEnergy_method2_drops_identity:
  "ReadHamiltonian sample_hamiltonians 4
     = Inr (SparsePauliOp [(''IIII'', 1), (''ZIII'', 1 / 2), (''IZII'', 1 / 4)])
   \<and> fst (VQEEnergy sample_str_float sample_commuting_groups sample_hamiltonians
            sample_ansatzes 4 1 1 0 2 empty_state)
       = Inr (0, ObservableList [SparsePauliOp [(''ZIII'', 1 / 2)],
                                  SparsePauliOp [(''IZII'', 1 / 4)]])
   \<and> ObservableList [SparsePauliOp [(''ZIII'', 1 / 2)], SparsePauliOp [(''IZII'', 1 / 4)]]
       \<noteq> ObservableList
           (op_list (SparsePauliOp [(''IIII'', 1), (''ZIII'', 1 / 2), (''IZII'', 1 / 4)]))"
proof -
  from sample_VQEEnergy [of 2]
  have "fst (VQEEnergy sample_str_float sample_commuting_groups sample_hamiltonians
            sample_ansatzes 4 1 1 0 2 empty_state)
       = Inr (0, ObservableList [SparsePauliOp [(''ZIII'', 1 / 2)],
                                  SparsePauliOp [(''IZII'', 1 / 4)]])"
    by auto
  then show ?thesis
    by (simp add: ReadHamiltonian_def sample_hamiltonians_def from_list_def op_list_def)
qed

subsection \<open>Scoring\<close>


lemma fidelity_against_error:
  "fidelity_against arf v ref = Inl e \<Longrightarrow> \<exists>k. e = KeyError k"
  by (auto simp add: fidelity_against_def getitem_def split: option.splits)



lemma fidelity_loop_error:
  "fidelity_loop arf references zs t = Inl e \<Longrightarrow> \<exists>k. e = KeyError k"
proof (induction zs arbitrary: t)
  case Nil
  then show ?case by simp
next
  case (Cons vt zs)
  obtain val pauli c where vt: "vt = (val, (pauli, c))" by (cases vt) auto
  show ?case
  proof (cases "references pauli")
    case None
    with Cons.prems show ?thesis by (auto simp add: vt getitem_def)
  next
    case (Some ref)
    show ?thesis
    proof (cases "fidelity_against arf (Scalar val) ref")
      case (Inl e')
      with Cons.prems Some have "e = e'" by (auto simp add: vt getitem_def)
      with Inl show ?thesis by (auto dest: fidelity_against_error)
    next
      case (Inr fidelity)
      show ?thesis
      proof (cases "fidelity ''fidelity''")
        case None
        with Cons.prems \<open>references pauli = Some ref\<close> Inr show ?thesis
          by (auto simp add: vt getitem_def)
      next
        case (Some f)
        with Cons.prems \<open>references pauli = Some ref\<close> Inr
        have "fidelity_loop arf references zs (t + f) = Inl e"
          by (simp add: vt getitem_def)
        then show ?thesis by (rule Cons.IH)
      qed
    qed
  qed
qed

lemma method1_score_error:
  "method1_score arf v expval n references = Inl (RuntimeError msg) \<Longrightarrow> False"
  by (auto simp add: method1_score_def getitem_def format_int_def
      split: meta_val.splits if_splits option.splits dest: fidelity_against_error)

lemma method2_score_error:
  "method2_score arf v expval references = Inl (RuntimeError msg) \<Longrightarrow> False"
  by (auto simp add: method2_score_def
      split: meta_val.splits expvals.splits sum.splits if_splits dest: fidelity_loop_error)



text \<open>
  C10. \<^verbatim>\<open>analyze_and_print_result\<close> raises a \<^verbatim>\<open>RuntimeError\<close> exactly when the metadata of
  the circuit holds neither \<open>method1\<close> nor \<open>method2\<close>. When it holds \<open>method1\<close> the result
  is that of the method-1 scoring, whatever else it holds, and when it holds \<open>method2\<close>
  and not \<open>method1\<close> the result is that of the method-2 scoring.
\<close>

theorem analyze_method_choice:
  "((\<exists>msg. analyze_and_print_result accuracy_ratio_fidelity qc expval n_qubits references
             = Inl (RuntimeError msg))
      \<longleftrightarrow> ''method1'' \<notin> dom (metadata qc) \<and> ''method2'' \<notin> dom (metadata qc))
   \<and> (\<forall>v. metadata qc ''method1'' = Some v \<longrightarrow>
          analyze_and_print_result accuracy_ratio_fidelity qc expval n_qubits references
            = method1_score accuracy_ratio_fidelity v expval n_qubits references)
   \<and> (\<forall>v. metadata qc ''method1'' = None \<and> metadata qc ''method2'' = Some v \<longrightarrow>
          analyze_and_print_result accuracy_ratio_fidelity qc expval n_qubits references
            = method2_score accuracy_ratio_fidelity v expval references)"
proof -
  let ?r = "analyze_and_print_result accuracy_ratio_fidelity qc expval n_qubits references"
  have paths: "(\<forall>v. metadata qc ''method1'' = Some v \<longrightarrow>
          ?r = method1_score accuracy_ratio_fidelity v expval n_qubits references)
   \<and> (\<forall>v. metadata qc ''method1'' = None \<and> metadata qc ''method2'' = Some v \<longrightarrow>
          ?r = method2_score accuracy_ratio_fidelity v expval references)"
    by (simp add: analyze_and_print_result_def)
  have "(\<exists>msg. ?r = Inl (RuntimeError msg))
      \<longleftrightarrow> ''method1'' \<notin> dom (metadata qc) \<and> ''method2'' \<notin> dom (metadata qc)"
  proof (cases "metadata qc ''method1''")
    case (Some v)
    with paths have "?r = method1_score accuracy_ratio_fidelity v expval n_qubits references"
      by simp
    with Some show ?thesis
      by (auto dest: method1_score_error)
  next
    case None
    show ?thesis
    proof (cases "metadata qc ''method2''")
      case (Some v)
      with None paths have "?r = method2_score accuracy_ratio_fidelity v expval references"
        by simp
      with Some show ?thesis
        by (auto dest: method2_score_error)
    next
      case none2: None
      with None show ?thesis
        by (auto simp add: analyze_and_print_result_def)
    qed
  qed
  with paths show ?thesis by blast
qed

theorem analyze_method_choice_witness:
  "analyze_and_print_result sample_fidelity sample_qc1 (Scalar (4 / 5)) 4 sample_references1
     = method1_score sample_fidelity (MStr ''ZIII 0.5 0'') (Scalar (4 / 5)) 4 sample_references1
   \<and> analyze_and_print_result sample_fidelity sample_qc2 (Vector [1, 2]) 4 sample_references2
     = method2_score sample_fidelity
         (MOp (SparsePauliOp [(''ZIII'', 1 / 2), (''IZII'', 1 / 4)])) (Vector [1, 2])
         sample_references2
   \<and> (\<forall>msg. analyze_and_print_result sample_fidelity sample_qc1 (Scalar (4 / 5)) 4
               sample_references1 \<noteq> Inl (RuntimeError msg))"
  using analyze_method_choice [of sample_fidelity sample_qc1 "Scalar (4 / 5)" 4
      sample_references1]
    analyze_method_choice [of sample_fidelity sample_qc2 "Vector [1, 2]" 4
      sample_references2]
  by (auto simp add: sample_qc1_def sample_qc2_def)











end
